theory Spec2Isabelle
  imports Main "HOL-Library.AList" "HOL-Library.Sublist"
begin

section \<open>AnnotationState\<close>

text \<open>
  The class \<open>AnnotationState\<close> of the current-line controller has two private fields:
  the flag \<open>_enabled\<close> given to the constructor and the optional \<open>_suspendReason\<close>
  (\<open>undefined\<close> is \<open>None\<close>). Its three methods mutate the object and return whether a
  refresh is required, so each is a function to the pair of that boolean and the new
  state.
\<close>

datatype SuspendReason = Debugging | Dirty

record AnnotationState =
  priv_enabled :: bool
  priv_suspendReason :: "SuspendReason option"

definition new_AnnotationState :: "bool \<Rightarrow> AnnotationState" where
  "new_AnnotationState e = \<lparr>priv_enabled = e, priv_suspendReason = None\<rparr>"

definition suspended :: "AnnotationState \<Rightarrow> bool" where
  "suspended s = (priv_suspendReason s \<noteq> None)"

definition enabled :: "AnnotationState \<Rightarrow> bool" where
  "enabled s = (if suspended s then False else priv_enabled s)"

definition reset :: "bool \<Rightarrow> AnnotationState \<Rightarrow> bool \<times> AnnotationState" where
  "reset e s =
     (if priv_enabled s = e \<and> \<not> suspended s then (False, s)
      else (True, s\<lparr>priv_enabled := e, priv_suspendReason := None\<rparr>))"

definition resume :: "SuspendReason \<Rightarrow> AnnotationState \<Rightarrow> bool \<times> AnnotationState" where
  "resume reason s =
     (let refresh = (priv_suspendReason s \<noteq> None)
      in (refresh, s\<lparr>priv_suspendReason := None\<rparr>))"

definition suspend :: "SuspendReason \<Rightarrow> AnnotationState \<Rightarrow> bool \<times> AnnotationState" where
  "suspend reason s =
     (let refresh = (priv_suspendReason s = None)
      in (refresh, s\<lparr>priv_suspendReason := Some reason\<rparr>))"

text \<open>A call of one of the three methods, and a sequence of calls on one object.\<close>

datatype AnnotationCall = Reset bool | Suspend SuspendReason | Resume SuspendReason

fun call :: "AnnotationCall \<Rightarrow> AnnotationState \<Rightarrow> AnnotationState" where
  "call (Reset e) s = snd (reset e s)"
| "call (Suspend r) s = snd (suspend r s)"
| "call (Resume r) s = snd (resume r s)"

fun calls :: "AnnotationCall list \<Rightarrow> AnnotationState \<Rightarrow> AnnotationState" where
  "calls [] s = s"
| "calls (c # cs) s = calls cs (call c s)"

fun is_Reset :: "AnnotationCall \<Rightarrow> bool" where
  "is_Reset (Reset e) = True"
| "is_Reset (Suspend r) = False"
| "is_Reset (Resume r) = False"


section \<open>DocumentTracker\<close>

subsection \<open>Documents, editors and tracked records\<close>

record Uri =
  scheme :: string
  fsPath :: string

record GitUri =
  git_uri :: Uri
  repoPath :: string
  sha :: "string option"

text \<open>
  A \<open>TextDocument\<close> is either a document of the editor host or the tracker's own class
  \<open>MissingRevisionTextDocument\<close>. A host document is a live object: the model carries
  its identity together with the values of the properties the code reads (\<open>uri\<close>,
  \<open>isDirty\<close>, \<open>lineCount\<close>) at the moment of the event. Objects are compared by
  identity (\<open>===\<close>), which is \<open>docIdent\<close>.
\<close>

datatype DocIdent = HostObject nat | MissingRevisionObject nat

datatype TextDocument =
    HostTextDocument nat Uri bool nat
  | MissingRevisionTextDocument nat GitUri Uri

fun docIdent :: "TextDocument \<Rightarrow> DocIdent" where
  "docIdent (HostTextDocument i u d n) = HostObject i"
| "docIdent (MissingRevisionTextDocument i g u) = MissingRevisionObject i"

fun uri :: "TextDocument \<Rightarrow> Uri" where
  "uri (HostTextDocument i u d n) = u"
| "uri (MissingRevisionTextDocument i g u) = u"

fun isDirty :: "TextDocument \<Rightarrow> bool" where
  "isDirty (HostTextDocument i u d n) = d"
| "isDirty (MissingRevisionTextDocument i g u) = False"

fun lineCount :: "TextDocument \<Rightarrow> nat" where
  "lineCount (HostTextDocument i u d n) = n"
| "lineCount (MissingRevisionTextDocument i g u) = 0"

fun isClosed :: "TextDocument \<Rightarrow> bool option" where
  "isClosed (HostTextDocument i u d n) = None"
| "isClosed (MissingRevisionTextDocument i g u) = Some False"

fun version :: "TextDocument \<Rightarrow> nat option" where
  "version (HostTextDocument i u d n) = None"
| "version (MissingRevisionTextDocument i g u) = Some 0"

text \<open>
  A thrown JavaScript value is kept as the string \<open>ex.toString()\<close> gives for it.
  Every method of \<open>MissingRevisionTextDocument\<close> throws; what a host document's
  methods return is the host's business (\<open>None\<close> here).
\<close>

datatype Thrown = Thrown string

fun getText :: "TextDocument \<Rightarrow> (Thrown + string) option" where
  "getText (HostTextDocument i u d n) = None"
| "getText (MissingRevisionTextDocument i g u) = Some (Inl (Thrown ''Error: Method not supported.''))"

fun save :: "TextDocument \<Rightarrow> (Thrown + bool) option" where
  "save (HostTextDocument i u d n) = None"
| "save (MissingRevisionTextDocument i g u) = Some (Inl (Thrown ''Error: Method not supported.''))"

record TextEditor =
  editorIdent :: nat
  editorDocument :: DocIdent

text \<open>
  Modelled from the spec: the class \<open>TrackedDocument\<close> (\<open>./trackedDocument\<close>) is an
  external collaborator, "per-document state record (dirty flag, blame-state, idle flag)"
  with a "force-change flag". The record has the fields the tracker reads and writes;
  \<open>reset\<close> drops the cached derived state, \<open>ensureInitialized\<close> completes the
  initialization and \<open>dispose\<close> releases the record.
\<close>

record TrackedDocument =
  document :: TextDocument
  key :: string
  dirty :: bool
  forceDirtyStateChangeOnNextDocumentChange :: bool
  isDirtyIdle :: bool
  hasCachedState :: bool
  initialized :: bool
  disposed :: bool

definition new_TrackedDocument :: "TextDocument \<Rightarrow> string \<Rightarrow> bool \<Rightarrow> TrackedDocument" where
  "new_TrackedDocument d k dty =
     \<lparr>document = d, key = k, dirty = dty, forceDirtyStateChangeOnNextDocumentChange = False,
      isDirtyIdle = False, hasCachedState = False, initialized = False, disposed = False\<rparr>"

definition td_reset :: "TrackedDocument \<Rightarrow> TrackedDocument" where
  "td_reset d = d\<lparr>isDirtyIdle := False, hasCachedState := False\<rparr>"

definition ensureInitialized :: "TrackedDocument \<Rightarrow> TrackedDocument" where
  "ensureInitialized d = d\<lparr>initialized := True\<rparr>"

definition dispose :: "TrackedDocument \<Rightarrow> TrackedDocument" where
  "dispose d = (td_reset d)\<lparr>disposed := True\<rparr>"

definition resetForceDirtyStateChangeOnNextDocumentChange :: "TrackedDocument \<Rightarrow> TrackedDocument" where
  "resetForceDirtyStateChangeOnNextDocumentChange d =
     d\<lparr>forceDirtyStateChangeOnNextDocumentChange := False\<rparr>"

definition setForceDirtyStateChangeOnNextDocumentChange :: "TrackedDocument \<Rightarrow> TrackedDocument" where
  "setForceDirtyStateChangeOnNextDocumentChange d =
     d\<lparr>forceDirtyStateChangeOnNextDocumentChange := True\<rparr>"

subsection \<open>Events and debounced functions\<close>

text \<open>
  The two event interfaces declared by the tracker. \<open>document\<close> is a reference to a
  \<open>TrackedDocument\<close> object (an address of the store of records below). The idle
  event is built with \<open>editor!\<close> from \<open>window.activeTextEditor\<close>, which may be
  \<open>undefined\<close>.
\<close>

record DocumentDirtyStateChangeEvent =
  ds_editor :: TextEditor
  ds_document :: nat
  ds_dirty :: bool

record DocumentDirtyIdleTriggerEvent =
  di_editor :: "TextEditor option"
  di_document :: nat

text \<open>The host's \<open>TextDocumentChangeEvent\<close>, of which the tracker reads the document.\<close>

record TextDocumentChangeEvent =
  ev_document :: TextDocument

text \<open>
  Modelled from the spec: \<open>Functions.debounce\<close> (\<open>./system\<close>) is "delay invocation of
  an action until a quiet period with no further triggering events has elapsed", "an
  explicit timer abstraction exposing schedule(args), cancel(), isPending(), implemented
  with a single owned timer handle per debounced operation". A debounced function is its
  wait in milliseconds and its timer: \<open>None\<close> when idle, otherwise the time at which it
  is due and the arguments of the latest call.
\<close>

record 'a Debounced =
  wait :: int
  timer :: "(int \<times> 'a) option"

definition debounce :: "int \<Rightarrow> 'a Debounced" where
  "debounce w = \<lparr>wait = w, timer = None\<rparr>"

definition schedule :: "int \<Rightarrow> 'a \<Rightarrow> 'a Debounced \<Rightarrow> 'a Debounced" where
  "schedule now args d = d\<lparr>timer := Some (now + wait d, args)\<rparr>"

definition cancel :: "'a Debounced \<Rightarrow> 'a Debounced" where
  "cancel d = d\<lparr>timer := None\<rparr>"

definition pending :: "'a Debounced \<Rightarrow> bool" where
  "pending d = (timer d \<noteq> None)"

subsection \<open>The tracker's state\<close>

text \<open>
  The fields of \<open>DocumentTracker\<close>, and the part of the host the tracker runs on.

  \<^item> \<open>documentMap\<close> is the JavaScript \<open>Map\<close>, in insertion order, keyed by a live
    document (its identity) or by a string; its values are references into \<open>records\<close>,
    the store of \<open>TrackedDocument\<close> objects, so that the two entries \<open>addCore\<close>
    makes share one object.
  \<^item> \<open>dirtyIdleTriggeredDebounced\<close> is a reference into \<open>idleDebounced\<close>, the store of
    the debounced functions made for the idle trigger: resetting the field to
    \<open>undefined\<close> drops the reference, not the object or its timer.
  \<^item> \<open>dirtyStateChangedDebounced\<close> is made once and never replaced, so it is held by
    value.
  \<^item> \<open>onTextDocumentChangedDebounced\<close> is the function the constructor subscribes to
    \<open>workspace.onDidChangeTextDocument\<close>:
    \<open>Functions.debounce(this.onTextDocumentChanged, 50)\<close>.
  \<^item> The three event emitters are the lists of the events they have fired, oldest first.
  \<^item> \<open>immediates\<close> is the queue of callbacks given to \<open>setImmediate\<close> (each closes over
    its event), \<open>now\<close> the host's clock in milliseconds, \<open>activeTextEditor\<close> the host's
    \<open>window.activeTextEditor\<close>, \<open>nextObject\<close> the next unused object identity.
\<close>

datatype MapKey = DocumentKey DocIdent | StringKey string

record DocumentTracker =
  dirtyIdleTriggerDelay :: int
  documentMap :: "(MapKey \<times> nat) list"
  dirtyIdleTriggeredDebounced :: "nat option"
  dirtyStateChangedDebounced :: "DocumentDirtyStateChangeEvent Debounced option"
  onDidChangeDirtyState :: "DocumentDirtyStateChangeEvent list"
  onDidTriggerDirtyIdle :: "DocumentDirtyIdleTriggerEvent list"
  records :: "nat \<rightharpoonup> TrackedDocument"
  idleDebounced :: "nat \<rightharpoonup> DocumentDirtyIdleTriggerEvent Debounced"
  immediates :: "DocumentDirtyStateChangeEvent list"
  now :: int
  activeTextEditor :: "TextEditor option"
  nextObject :: nat
  onTextDocumentChangedDebounced :: "TextDocumentChangeEvent Debounced"

text \<open>
  What the tracker takes from code outside this repository's sources: the result of
  \<open>workspace.openTextDocument\<close> (a document, or the value it throws),
  \<open>GitUri.fileUri({ useVersionedPath: true })\<close> and \<open>GitUri.toKey\<close>.
\<close>

record Host =
  openTextDocument :: "Uri \<Rightarrow> Thrown + TextDocument"
  fileUri :: "GitUri \<Rightarrow> Uri"
  toKey :: "Uri \<Rightarrow> string"

definition updateRecord :: "nat \<Rightarrow> (TrackedDocument \<Rightarrow> TrackedDocument) \<Rightarrow> DocumentTracker \<Rightarrow> DocumentTracker" where
  "updateRecord r f t =
     (case records t r of
        None \<Rightarrow> t
      | Some d \<Rightarrow> t\<lparr>records := (records t)(r \<mapsto> f d)\<rparr>)"

definition mapGet :: "DocumentTracker \<Rightarrow> MapKey \<Rightarrow> nat option" where
  "mapGet t k = map_of (documentMap t) k"

definition mapSet :: "MapKey \<Rightarrow> nat \<Rightarrow> DocumentTracker \<Rightarrow> DocumentTracker" where
  "mapSet k r t = t\<lparr>documentMap := AList.update k r (documentMap t)\<rparr>"

definition mapDelete :: "MapKey \<Rightarrow> DocumentTracker \<Rightarrow> DocumentTracker" where
  "mapDelete k t = t\<lparr>documentMap := AList.delete k (documentMap t)\<rparr>"

subsection \<open>The tracker's methods\<close>

text \<open>\<open>addCore\<close> returns the reference to the new record and the new state.\<close>

definition addCore :: "Host \<Rightarrow> TextDocument \<Rightarrow> DocumentTracker \<Rightarrow> nat \<times> DocumentTracker" where
  "addCore h d t =
     (let k = toKey h (uri d);
          r = nextObject t;
          t1 = t\<lparr>records := (records t)(r \<mapsto> new_TrackedDocument d k False),
                 nextObject := Suc r\<rparr>;
          t2 = mapSet (DocumentKey (docIdent d)) r t1;
          t3 = mapSet (StringKey k) r t2
      in (r, t3))"

text \<open>
  The configuration change event, reduced to what \<open>onConfigurationChanged\<close> asks of it:
  \<open>configuration.initializing(e)\<close>, the three \<open>configuration.changed(e, section)\<close>, and
  the value \<open>configuration.get\<close> returns for \<open>advanced.blame.delayAfterEdit\<close> when the
  handler runs.
\<close>

record ConfigurationChangeEvent =
  initializing :: bool
  changed_ignoreWhitespace :: bool
  changed_cachingEnabled :: bool
  changed_delayAfterEdit :: bool
  get_delayAfterEdit :: int

definition onConfigurationChanged :: "ConfigurationChangeEvent \<Rightarrow> DocumentTracker \<Rightarrow> DocumentTracker" where
  "onConfigurationChanged e t =
     (let t1 = (if \<not> initializing e \<and> (changed_ignoreWhitespace e \<or> changed_cachingEnabled e)
                then fold (\<lambda>r. updateRecord r td_reset) (map snd (documentMap t)) t
                else t)
      in if initializing e \<or> changed_delayAfterEdit e
         then t1\<lparr>dirtyIdleTriggerDelay := get_delayAfterEdit e,
                 dirtyIdleTriggeredDebounced := None\<rparr>
         else t1)"

text \<open>Calling, cancelling and asking \<open>pending()\<close> of the idle debounced function at a reference.\<close>

definition callIdleDebounced :: "nat \<Rightarrow> DocumentDirtyIdleTriggerEvent \<Rightarrow> DocumentTracker \<Rightarrow> DocumentTracker" where
  "callIdleDebounced r e t =
     (case idleDebounced t r of
        None \<Rightarrow> t
      | Some d \<Rightarrow> t\<lparr>idleDebounced := (idleDebounced t)(r \<mapsto> schedule (now t) e d)\<rparr>)"

definition cancelIdleDebounced :: "nat \<Rightarrow> DocumentTracker \<Rightarrow> DocumentTracker" where
  "cancelIdleDebounced r t =
     (case idleDebounced t r of
        None \<Rightarrow> t
      | Some d \<Rightarrow> t\<lparr>idleDebounced := (idleDebounced t)(r \<mapsto> cancel d)\<rparr>)"

definition idlePending :: "DocumentTracker \<Rightarrow> nat \<Rightarrow> bool" where
  "idlePending t r = (case idleDebounced t r of None \<Rightarrow> False | Some d \<Rightarrow> pending d)"

definition sameEditor :: "TextEditor option \<Rightarrow> TextEditor \<Rightarrow> bool" where
  "sameEditor a e = (case a of None \<Rightarrow> False | Some x \<Rightarrow> editorIdent x = editorIdent e)"

text \<open>
  \<open>fireDocumentDirtyStateChanged\<close>. The dirty branch hands its closure to
  \<open>setImmediate\<close> and, when the delay is positive, makes the idle debounced function if
  there is none and calls it. The clean branch makes the 250 ms debounced function if
  there is none and calls it.
\<close>

definition fireDocumentDirtyStateChanged :: "DocumentDirtyStateChangeEvent \<Rightarrow> DocumentTracker \<Rightarrow> DocumentTracker" where
  "fireDocumentDirtyStateChanged e t =
     (if ds_dirty e then
        (let t1 = t\<lparr>immediates := immediates t @ [e]\<rparr>
         in if dirtyIdleTriggerDelay t1 > 0 then
              (let t2 = (case dirtyIdleTriggeredDebounced t1 of
                           None \<Rightarrow> t1\<lparr>idleDebounced := (idleDebounced t1)(nextObject t1 \<mapsto> debounce (dirtyIdleTriggerDelay t1)),
                                        dirtyIdleTriggeredDebounced := Some (nextObject t1),
                                        nextObject := Suc (nextObject t1)\<rparr>
                         | Some r \<Rightarrow> t1)
               in case dirtyIdleTriggeredDebounced t2 of
                    None \<Rightarrow> t2
                  | Some r \<Rightarrow> callIdleDebounced r \<lparr>di_editor = Some (ds_editor e), di_document = ds_document e\<rparr> t2)
            else t1)
      else
        (let d = (case dirtyStateChangedDebounced t of None \<Rightarrow> debounce 250 | Some d \<Rightarrow> d)
         in t\<lparr>dirtyStateChangedDebounced := Some (schedule (now t) e d)\<rparr>))"

text \<open>
  \<open>onTextDocumentChanged\<close>, as the handler runs once the 50 ms debounce in front of
  it has let a change event through (\<open>textDocumentChanged\<close> and \<open>changeTimer\<close>
  below). \<open>DocumentSchemes.File\<close> is declared in \<open>./constants\<close>,
  outside these sources; it is taken to be the host's scheme of documents on disk,
  \<open>file\<close>.
\<close>

definition DocumentSchemes_File :: string where
  "DocumentSchemes_File = ''file''"

definition onTextDocumentChanged :: "Host \<Rightarrow> TextDocumentChangeEvent \<Rightarrow> DocumentTracker \<Rightarrow> DocumentTracker" where
  "onTextDocumentChanged h e t =
     (if scheme (uri (ev_document e)) \<noteq> DocumentSchemes_File then t
      else
        (let (doc, t1) = (case mapGet t (DocumentKey (docIdent (ev_document e))) of
                            None \<Rightarrow> addCore h (ev_document e) t
                          | Some r \<Rightarrow> (r, t));
             t2 = updateRecord doc td_reset t1;
             dty = isDirty (ev_document e);
             editor = activeTextEditor t2;
             t3 = (case dirtyIdleTriggeredDebounced t2 of
                     None \<Rightarrow> t2
                   | Some r \<Rightarrow>
                       if dty then callIdleDebounced r \<lparr>di_editor = editor, di_document = doc\<rparr> t2
                       else cancelIdleDebounced r t2)
         in case records t3 doc of
              None \<Rightarrow> t3
            | Some d \<Rightarrow>
                if \<not> forceDirtyStateChangeOnNextDocumentChange d \<and> dirty d = dty then t3
                else
                  (let t4 = updateRecord doc
                              (\<lambda>d. (resetForceDirtyStateChangeOnNextDocumentChange d)\<lparr>dirty := dty\<rparr>) t3
                   in case editor of
                        None \<Rightarrow> t4
                      | Some ed \<Rightarrow>
                          if editorDocument ed \<noteq> docIdent (ev_document e) then t4
                          else fireDocumentDirtyStateChanged
                                 \<lparr>ds_editor = ed, ds_document = doc, ds_dirty = dty\<rparr> t4)))"

definition onTextDocumentClosed :: "TextDocument \<Rightarrow> DocumentTracker \<Rightarrow> DocumentTracker" where
  "onTextDocumentClosed d t =
     (case mapGet t (DocumentKey (docIdent d)) of
        None \<Rightarrow> t
      | Some r \<Rightarrow>
          (let t1 = updateRecord r dispose t;
               t2 = mapDelete (DocumentKey (docIdent d)) t1
           in case records t2 r of
                None \<Rightarrow> t2
              | Some doc \<Rightarrow> mapDelete (StringKey (key doc)) t2))"

definition clear :: "DocumentTracker \<Rightarrow> DocumentTracker" where
  "clear t =
     (fold (\<lambda>r. updateRecord r dispose) (map snd (documentMap t)) t)\<lparr>documentMap := []\<rparr>"

text \<open>
  The three deferred closures of \<open>fireDocumentDirtyStateChanged\<close>: the one given to
  \<open>setImmediate\<close>, the body of the idle debounced function and the body of the 250 ms
  debounced function. Each awaits \<open>e.document.ensureInitialized()\<close> before it fires;
  the model takes that promise as already resolved, so the closure runs in one piece.
\<close>

definition fireDirtyState :: "DocumentDirtyStateChangeEvent \<Rightarrow> DocumentTracker \<Rightarrow> DocumentTracker" where
  "fireDirtyState e t =
     (let t1 = updateRecord (ds_document e) ensureInitialized t
      in t1\<lparr>onDidChangeDirtyState := onDidChangeDirtyState t1 @ [e]\<rparr>)"

definition dirtyImmediate :: "DocumentDirtyStateChangeEvent \<Rightarrow> DocumentTracker \<Rightarrow> DocumentTracker" where
  "dirtyImmediate e t =
     (let t1 = (case dirtyStateChangedDebounced t of
                  None \<Rightarrow> t
                | Some d \<Rightarrow> t\<lparr>dirtyStateChangedDebounced := Some (cancel d)\<rparr>)
      in if \<not> sameEditor (activeTextEditor t1) (ds_editor e) then t1
         else fireDirtyState e t1)"

definition dirtyIdleTriggered :: "DocumentDirtyIdleTriggerEvent \<Rightarrow> DocumentTracker \<Rightarrow> DocumentTracker" where
  "dirtyIdleTriggered e t =
     (if (case dirtyIdleTriggeredDebounced t of None \<Rightarrow> False | Some r \<Rightarrow> idlePending t r) then t
      else
        (let t1 = updateRecord (di_document e) (\<lambda>d. (ensureInitialized d)\<lparr>isDirtyIdle := True\<rparr>) t
         in t1\<lparr>onDidTriggerDirtyIdle := onDidTriggerDirtyIdle t1 @ [e]\<rparr>))"

definition dirtyStateChanged :: "DocumentDirtyStateChangeEvent \<Rightarrow> DocumentTracker \<Rightarrow> DocumentTracker" where
  "dirtyStateChanged e t =
     (if \<not> sameEditor (activeTextEditor t) (ds_editor e) then t
      else fireDirtyState e t)"

subsection \<open>The host's event loop\<close>

text \<open>
  What the host does to the tracker, one event at a time. A timer runs its debounced
  function's body with the latest arguments once it is due, and is then idle; a timer
  that is not due, or idle, does nothing. \<open>Immediate\<close> runs the oldest closure given to
  \<open>setImmediate\<close>. \<open>ActiveTextEditor\<close> is the host changing
  \<open>window.activeTextEditor\<close>, \<open>Elapse\<close> the passing of time.

  \<open>TextDocumentChanged\<close> is the host firing \<open>workspace.onDidChangeTextDocument\<close>:
  it calls the debounced function in front of the handler, which only restarts the
  50 ms timer. \<open>ChangeTimer\<close> is that timer: once due, it runs
  \<open>onTextDocumentChanged\<close> with the latest event. Every change of a document fires
  an event, so the document of the latest event is the document as the handler finds
  it.
\<close>

definition textDocumentChanged :: "TextDocumentChangeEvent \<Rightarrow> DocumentTracker \<Rightarrow> DocumentTracker" where
  "textDocumentChanged e t =
     t\<lparr>onTextDocumentChangedDebounced := schedule (now t) e (onTextDocumentChangedDebounced t)\<rparr>"

definition changeTimer :: "Host \<Rightarrow> DocumentTracker \<Rightarrow> DocumentTracker" where
  "changeTimer h t =
     (case timer (onTextDocumentChangedDebounced t) of
        None \<Rightarrow> t
      | Some (due, e) \<Rightarrow>
          if due \<le> now t
          then onTextDocumentChanged h e
                 (t\<lparr>onTextDocumentChangedDebounced := cancel (onTextDocumentChangedDebounced t)\<rparr>)
          else t)"

definition idleTimer :: "nat \<Rightarrow> DocumentTracker \<Rightarrow> DocumentTracker" where
  "idleTimer r t =
     (case idleDebounced t r of
        None \<Rightarrow> t
      | Some d \<Rightarrow>
          (case timer d of
             None \<Rightarrow> t
           | Some (due, e) \<Rightarrow>
               if due \<le> now t
               then dirtyIdleTriggered e (t\<lparr>idleDebounced := (idleDebounced t)(r \<mapsto> cancel d)\<rparr>)
               else t))"

definition stateTimer :: "DocumentTracker \<Rightarrow> DocumentTracker" where
  "stateTimer t =
     (case dirtyStateChangedDebounced t of
        None \<Rightarrow> t
      | Some d \<Rightarrow>
          (case timer d of
             None \<Rightarrow> t
           | Some (due, e) \<Rightarrow>
               if due \<le> now t
               then dirtyStateChanged e (t\<lparr>dirtyStateChangedDebounced := Some (cancel d)\<rparr>)
               else t))"

definition elapse :: "nat \<Rightarrow> DocumentTracker \<Rightarrow> DocumentTracker" where
  "elapse n t = t\<lparr>now := now t + int n\<rparr>"

definition runImmediate :: "DocumentTracker \<Rightarrow> DocumentTracker" where
  "runImmediate t =
     (case immediates t of
        [] \<Rightarrow> t
      | e # es \<Rightarrow> dirtyImmediate e (t\<lparr>immediates := es\<rparr>))"

datatype HostEvent =
    ConfigurationChanged ConfigurationChangeEvent
  | TextDocumentChanged TextDocumentChangeEvent
  | TextDocumentClosed TextDocument
  | ActiveTextEditor "TextEditor option"
  | Elapse nat
  | IdleTimer nat
  | StateTimer
  | ChangeTimer
  | Immediate

fun step :: "Host \<Rightarrow> HostEvent \<Rightarrow> DocumentTracker \<Rightarrow> DocumentTracker" where
  "step h (ConfigurationChanged e) t = onConfigurationChanged e t"
| "step h (TextDocumentChanged e) t = textDocumentChanged e t"
| "step h (TextDocumentClosed d) t = onTextDocumentClosed d t"
| "step h (ActiveTextEditor a) t = t\<lparr>activeTextEditor := a\<rparr>"
| "step h (Elapse n) t = elapse n t"
| "step h (IdleTimer r) t = idleTimer r t"
| "step h StateTimer t = stateTimer t"
| "step h ChangeTimer t = changeTimer h t"
| "step h Immediate t = runImmediate t"

fun run :: "Host \<Rightarrow> HostEvent list \<Rightarrow> DocumentTracker \<Rightarrow> DocumentTracker" where
  "run h [] t = t"
| "run h (e # es) t = run h es (step h e t)"

text \<open>
  The constructor: empty fields, the text-change handler behind its 50 ms debounce,
  then \<open>onConfigurationChanged\<close> with the initializing event, which reads the
  configured delay.
\<close>

definition initializingChangeEvent :: "int \<Rightarrow> ConfigurationChangeEvent" where
  "initializingChangeEvent delay =
     \<lparr>initializing = True, changed_ignoreWhitespace = False, changed_cachingEnabled = False,
      changed_delayAfterEdit = False, get_delayAfterEdit = delay\<rparr>"

definition new_DocumentTracker :: "int \<Rightarrow> DocumentTracker" where
  "new_DocumentTracker delay =
     onConfigurationChanged (initializingChangeEvent delay)
       \<lparr>dirtyIdleTriggerDelay = 0, documentMap = [], dirtyIdleTriggeredDebounced = None,
        dirtyStateChangedDebounced = None, onDidChangeDirtyState = [], onDidTriggerDirtyIdle = [],
        records = Map.empty, idleDebounced = Map.empty, immediates = [], now = 0,
        activeTextEditor = None, nextObject = 0,
        onTextDocumentChangedDebounced = debounce 50\<rparr>"

subsection \<open>Runs of the event loop\<close>

text \<open>
  A configuration change reads the delay when it is the initializing event or reports
  a change of \<open>advanced.blame.delayAfterEdit\<close>. \<open>delayNeverPositive\<close> holds of a list
  of host events in which every configuration change that reads the delay finds it at
  most 0.
\<close>

fun readsNoPositiveDelay :: "HostEvent \<Rightarrow> bool" where
  "readsNoPositiveDelay (ConfigurationChanged e) =
     (if initializing e \<or> changed_delayAfterEdit e then get_delayAfterEdit e \<le> 0 else True)"
| "readsNoPositiveDelay (TextDocumentChanged e) = True"
| "readsNoPositiveDelay (TextDocumentClosed d) = True"
| "readsNoPositiveDelay (ActiveTextEditor a) = True"
| "readsNoPositiveDelay (Elapse n) = True"
| "readsNoPositiveDelay (IdleTimer r) = True"
| "readsNoPositiveDelay StateTimer = True"
| "readsNoPositiveDelay ChangeTimer = True"
| "readsNoPositiveDelay Immediate = True"

definition delayNeverPositive :: "HostEvent list \<Rightarrow> bool" where
  "delayNeverPositive es = list_all readsNoPositiveDelay es"

text \<open>
  A tracker is settled when no closure given to \<open>setImmediate\<close> is waiting and the
  clean-side debounced function, if it has been made, is the one
  \<open>fireDocumentDirtyStateChanged\<close> makes (250 ms).
\<close>

definition settled :: "DocumentTracker \<Rightarrow> bool" where
  "settled t =
     (immediates t = []
      \<and> (case dirtyStateChangedDebounced t of None \<Rightarrow> True | Some d \<Rightarrow> wait d = 250))"


text \<open>
  No debounced function made for the idle trigger has its timer running. Objects are
  numbered below \<open>nextObject\<close>.
\<close>

definition idleTimersIdle :: "DocumentTracker \<Rightarrow> bool" where
  "idleTimersIdle t = list_all (\<lambda>r. \<not> idlePending t r) [0..<nextObject t]"






subsection \<open>Adding a document\<close>

text \<open>\<open>String.prototype.includes\<close>: the second string occurs in the first.\<close>

fun includes_str :: "string \<Rightarrow> string \<Rightarrow> bool" where
  "includes_str [] sub = (sub = [])"
| "includes_str (c # cs) sub = (prefix sub (c # cs) \<or> includes_str cs sub)"

text \<open>
  The argument of \<open>add\<close> is a document, a \<open>GitUri\<close> or another \<open>Uri\<close>
  (\<open>instanceof\<close> tells them apart). \<open>addAndInitialize\<close> is the end of \<open>_add\<close>,
  common to the three cases: \<open>addCore\<close>, then \<open>ensureInitialized\<close> on the new
  record, which is returned.
\<close>

datatype DocumentOrId = ADocument TextDocument | AGitUri GitUri | AUri Uri

definition addAndInitialize :: "Host \<Rightarrow> TextDocument \<Rightarrow> DocumentTracker \<Rightarrow> Thrown + nat \<times> DocumentTracker" where
  "addAndInitialize h d t =
     (let (doc, t1) = addCore h d t
      in Inr (doc, updateRecord doc ensureInitialized t1))"

definition new_MissingRevisionTextDocument :: "Host \<Rightarrow> GitUri \<Rightarrow> DocumentTracker \<Rightarrow> TextDocument \<times> DocumentTracker" where
  "new_MissingRevisionTextDocument h g t =
     (MissingRevisionTextDocument (nextObject t) g (fileUri h g), t\<lparr>nextObject := Suc (nextObject t)\<rparr>)"

fun priv_add :: "Host \<Rightarrow> DocumentOrId \<Rightarrow> DocumentTracker \<Rightarrow> Thrown + nat \<times> DocumentTracker" where
  "priv_add h (AGitUri g) t =
     (case openTextDocument h (fileUri h g) of
        Inr d \<Rightarrow> addAndInitialize h d t
      | Inl (Thrown ex) \<Rightarrow>
          if \<not> includes_str ex ''File not found'' then Inl (Thrown ex)
          else (let (d, t1) = new_MissingRevisionTextDocument h g t
                in addAndInitialize h d t1))"
| "priv_add h (AUri u) t =
     (case openTextDocument h u of
        Inl ex \<Rightarrow> Inl ex
      | Inr d \<Rightarrow> addAndInitialize h d t)"
| "priv_add h (ADocument d) t = addAndInitialize h d t"

definition add :: "Host \<Rightarrow> DocumentOrId \<Rightarrow> DocumentTracker \<Rightarrow> Thrown + nat \<times> DocumentTracker" where
  "add h documentOrId t = priv_add h documentOrId t"

section \<open>CurrentLineController\<close>

subsection \<open>Suspending and resuming the blame annotations\<close>

text \<open>
  The controller's field \<open>_blameAnnotationState\<close>, the configuration value
  \<open>currentLine.enabled\<close> that \<open>getBlameAnnotationState\<close> falls back to, and the calls
  of \<open>this.refresh(editor)\<close> made so far (oldest first). \<open>refresh\<close> itself is not
  unfolded here: a handler's effect is the new annotation state and whether it asked
  for a refresh.
\<close>

record CurrentLineController =
  priv_blameAnnotationState :: "AnnotationState option"
  config_currentLine_enabled :: bool
  refreshCalls :: "TextEditor list"

text \<open>
  What a handler reads from the host when it runs: \<open>window.activeTextEditor\<close> and the
  configuration value \<open>advanced.blame.sizeThresholdAfterEdit\<close>. The tracker's two
  events carry the tracked document, of which the controller reads \<open>lineCount\<close>.
\<close>

record Window =
  window_activeTextEditor :: "TextEditor option"
  sizeThresholdAfterEdit :: int

record DirtyStateChange =
  change_dirty :: bool
  change_lineCount :: nat

record DirtyIdleTrigger =
  trigger_lineCount :: nat

definition getBlameAnnotationState_enabled :: "CurrentLineController \<Rightarrow> bool" where
  "getBlameAnnotationState_enabled c =
     (case priv_blameAnnotationState c of
        Some s \<Rightarrow> enabled s
      | None \<Rightarrow> config_currentLine_enabled c)"

definition refresh_editor :: "TextEditor \<Rightarrow> CurrentLineController \<Rightarrow> CurrentLineController" where
  "refresh_editor editor c = c\<lparr>refreshCalls := refreshCalls c @ [editor]\<rparr>"

definition resumeBlameAnnotations ::
  "SuspendReason \<Rightarrow> TextEditor option \<Rightarrow> bool \<Rightarrow> CurrentLineController \<Rightarrow> CurrentLineController" where
  "resumeBlameAnnotations reason editor force c =
     (if \<not> force \<and> (case priv_blameAnnotationState c of None \<Rightarrow> True | Some s \<Rightarrow> \<not> suspended s)
      then c
      else
        (let (refresh, c1) =
               (case priv_blameAnnotationState c of
                  None \<Rightarrow> (False, c)
                | Some s \<Rightarrow> (fst (resume reason s),
                             c\<lparr>priv_blameAnnotationState := Some (snd (resume reason s))\<rparr>))
         in case editor of
              None \<Rightarrow> c1
            | Some ed \<Rightarrow> if \<not> force \<and> \<not> refresh then c1 else refresh_editor ed c1))"

text \<open>
  \<open>suspendBlameAnnotations\<close> resolves to \<open>false\<close>, \<open>undefined\<close> (\<open>None\<close>) or
  \<open>true\<close>.
\<close>

definition suspendBlameAnnotations ::
  "SuspendReason \<Rightarrow> TextEditor option \<Rightarrow> bool \<Rightarrow> CurrentLineController
     \<Rightarrow> bool option \<times> CurrentLineController" where
  "suspendBlameAnnotations reason editor force c =
     (let state_enabled = getBlameAnnotationState_enabled c
      in if priv_blameAnnotationState c = None \<and> \<not> state_enabled then (Some False, c)
         else
           (let s = (case priv_blameAnnotationState c of
                       None \<Rightarrow> new_AnnotationState state_enabled
                     | Some s \<Rightarrow> s);
                refresh = fst (suspend reason s);
                c1 = c\<lparr>priv_blameAnnotationState := Some (snd (suspend reason s))\<rparr>
            in case editor of
                 None \<Rightarrow> (None, c1)
               | Some ed \<Rightarrow>
                   if \<not> force \<and> \<not> refresh then (None, c1)
                   else (Some True, refresh_editor ed c1)))"

definition onDirtyIdleTriggered :: "Window \<Rightarrow> DirtyIdleTrigger \<Rightarrow> CurrentLineController \<Rightarrow> CurrentLineController" where
  "onDirtyIdleTriggered w e c =
     (let maxLines = sizeThresholdAfterEdit w
      in if maxLines > 0 \<and> int (trigger_lineCount e) > maxLines then c
         else resumeBlameAnnotations Dirty (window_activeTextEditor w) False c)"

definition onDirtyStateChanged :: "Window \<Rightarrow> DirtyStateChange \<Rightarrow> CurrentLineController \<Rightarrow> CurrentLineController" where
  "onDirtyStateChanged w e c =
     (if change_dirty e
      then snd (suspendBlameAnnotations Dirty (window_activeTextEditor w) False c)
      else resumeBlameAnnotations Dirty (window_activeTextEditor w) True c)"

definition blameSuspended :: "CurrentLineController \<Rightarrow> bool" where
  "blameSuspended c =
     (case priv_blameAnnotationState c of None \<Rightarrow> False | Some s \<Rightarrow> suspended s)"

subsection \<open>The debounced blame update\<close>

text \<open>
  The Git data the update asks for. A commit is known by its sha. \<open>Git\<close> holds the
  provider's answers for the tracked document: the blame of one line or of the whole
  file, against the stored revision or against the editor's text.
\<close>

type_synonym GitCommit = string

record GitCommitLine =
  commitLine_sha :: string
  commitLine_line :: nat

record GitBlameLine =
  blame_line :: GitCommitLine
  blame_commit :: "GitCommit option"

record GitBlame =
  blame_lines :: "GitCommitLine list"
  blame_commits :: "string \<rightharpoonup> GitCommit"

record Git =
  getBlameForLine :: "nat \<Rightarrow> GitBlameLine option"
  getBlameForLineContents :: "nat \<Rightarrow> GitBlameLine option"
  getBlameForFile :: "GitBlame option"
  getBlameForFileContents :: "GitBlame option"

text \<open>
  \<open>updateBlame\<close> is asynchronous: it runs up to an \<open>await\<close>, and resumes later, when
  the line tracker, the debounced function, the configuration and the controller's own
  fields may have changed. \<open>Observed\<close> is what the code reads at one such moment:
  \<open>this._lineTracker.includesAll(lines)\<close>, \<open>this._updateBlameDebounced.pending()\<close>,
  \<open>trackedDocument.isBlameable\<close>, \<open>getBlameAnnotationState().enabled\<close>,
  \<open>Container.config.statusBar.enabled\<close>, whether \<open>this._statusBarItem\<close> and
  \<open>this._hoverProviderDisposable\<close> are defined, \<open>isTextEditor(editor)\<close>,
  \<open>editor._disposed\<close>, whether \<open>editor.document\<close> is defined and dirty, whether
  \<open>Container.tracker.get(editor.document)\<close> finds a record, and \<open>this._editor\<close> with
  its \<open>_disposed\<close> flag.
\<close>

record Observed =
  obs_includesAll :: bool
  obs_pending :: bool
  obs_isBlameable :: bool
  obs_annotationsEnabled :: bool
  obs_statusBarEnabled :: bool
  obs_statusBarItem :: bool
  obs_hoverProviders :: bool
  obs_isTextEditor :: bool
  obs_editorDisposed :: bool
  obs_documentDefined :: bool
  obs_documentIsDirty :: bool
  obs_tracked :: bool
  obs_thisEditor :: "(TextEditor \<times> bool) option"

text \<open>What the controller writes to the display and to the line tracker.\<close>

datatype Effect =
    LineTrackerReset
  | LineTrackerSetState nat "GitCommit option"
  | SetDecorations nat "nat list"
  | UnregisterHoverProviders
  | StatusBarHide
  | StatusBarShow "GitCommit option"
  | SetForceDirtyStateChange

definition clearAnnotations :: "(TextEditor \<times> bool) option \<Rightarrow> Effect list" where
  "clearAnnotations editor =
     (case editor of
        None \<Rightarrow> []
      | Some (ed, isDisposed) \<Rightarrow> if isDisposed then [] else [SetDecorations (editorIdent ed) []])"

definition unregisterHoverProviders :: "Observed \<Rightarrow> Effect list" where
  "unregisterHoverProviders ob = (if obs_hoverProviders ob then [UnregisterHoverProviders] else [])"

definition clear_editor :: "Observed \<Rightarrow> (TextEditor \<times> bool) option \<Rightarrow> bool \<Rightarrow> Effect list" where
  "clear_editor ob editor reasonIsLines =
     (if map_option (editorIdent \<circ> fst) (obs_thisEditor ob) \<noteq> map_option (editorIdent \<circ> fst) editor
         \<and> obs_thisEditor ob \<noteq> None
      then clearAnnotations (obs_thisEditor ob) else [])
     @ clearAnnotations editor
     @ unregisterHoverProviders ob
     @ [LineTrackerReset]
     @ (if obs_statusBarItem ob \<and> \<not> reasonIsLines then [StatusBarHide] else [])"

definition updateStatusBar :: "GitCommit option \<Rightarrow> Observed \<Rightarrow> Effect list" where
  "updateStatusBar commit ob =
     (if \<not> obs_statusBarEnabled ob \<or> \<not> obs_statusBarItem ob \<or> \<not> obs_isTextEditor ob then []
      else [StatusBarShow commit])"

definition updateTrailingAnnotations :: "GitBlameLine list \<Rightarrow> TextEditor \<Rightarrow> Observed \<Rightarrow> Effect list" where
  "updateTrailingAnnotations ls editor ob =
     (if \<not> obs_annotationsEnabled ob \<or> \<not> obs_isTextEditor ob
      then clearAnnotations (Some (editor, obs_editorDisposed ob))
      else [SetDecorations (editorIdent editor) (map (\<lambda>l. commitLine_line (blame_line l)) ls)])"

text \<open>
  The blame lines of a whole-file blame: \<open>lines.map(l => ...)\<close>. Reading \<open>.sha\<close> of a
  line the blame does not have throws.
\<close>

fun mapBlameLines :: "GitBlame \<Rightarrow> nat list \<Rightarrow> Thrown + GitBlameLine list" where
  "mapBlameLines b [] = Inr []"
| "mapBlameLines b (l # ls) =
     (if l < length (blame_lines b)
      then (case mapBlameLines b ls of
              Inl ex \<Rightarrow> Inl ex
            | Inr r \<Rightarrow>
                Inr (\<lparr>blame_line = blame_lines b ! l,
                      blame_commit = blame_commits b (commitLine_sha (blame_lines b ! l))\<rparr> # r))
      else Inl (Thrown ''TypeError: Cannot read property 'sha' of undefined''))"

text \<open>
  The fetch: \<open>None\<close> when the provider has no blame. Which of the four requests is made
  depends on the number of lines and on \<open>editor.document.isDirty\<close> before the
  \<open>await\<close>.
\<close>

definition fetchBlameLines :: "Git \<Rightarrow> nat list \<Rightarrow> bool \<Rightarrow> Thrown + GitBlameLine list option" where
  "fetchBlameLines g ls isDirtyNow =
     (case ls of
        [l] \<Rightarrow>
          (case (if isDirtyNow then getBlameForLineContents g l else getBlameForLine g l) of
             None \<Rightarrow> Inr None
           | Some blameLine \<Rightarrow> Inr (Some [blameLine]))
      | _ \<Rightarrow>
          (case (if isDirtyNow then getBlameForFileContents g else getBlameForFile g) of
             None \<Rightarrow> Inr None
           | Some blame \<Rightarrow>
               (case mapBlameLines blame ls of
                  Inl ex \<Rightarrow> Inl ex
                | Inr r \<Rightarrow> Inr (Some r))))"

text \<open>
  \<open>updateBlame lines editor\<close>, with the observation \<open>before\<close> the fetch, the one at the
  resumption \<open>after\<close> it, and the one after the second \<open>await\<close>
  (\<open>Container.tracker.get\<close>, made only for a dirty document). The result is the list of
  effects in order, or the value thrown.
\<close>

definition applyBlame :: "GitBlameLine list \<Rightarrow> TextEditor \<Rightarrow> Observed \<Rightarrow> Observed \<Rightarrow> Thrown + Effect list" where
  "applyBlame blameLines editor after final =
     (case blameLines of
        [] \<Rightarrow> Inl (Thrown ''TypeError: Cannot read property 'line' of undefined'')
      | activeLine # _ \<Rightarrow>
          (let setState = [LineTrackerSetState (commitLine_line (blame_line activeLine)) (blame_commit activeLine)]
           in if \<not> obs_documentDefined after then Inr setState
              else if obs_documentIsDirty after
              then Inr (setState
                        @ (if obs_tracked final then [SetForceDirtyStateChange] else [])
                        @ updateStatusBar (blame_commit activeLine) final
                        @ updateTrailingAnnotations blameLines editor final)
              else Inr (setState
                        @ updateStatusBar (blame_commit activeLine) after
                        @ updateTrailingAnnotations blameLines editor after)))"

definition updateBlame ::
  "nat list \<Rightarrow> TextEditor \<Rightarrow> Git \<Rightarrow> Observed \<Rightarrow> Observed \<Rightarrow> Observed \<Rightarrow> Thrown + Effect list" where
  "updateBlame ls editor g before after final =
     (if \<not> obs_includesAll before \<or> obs_pending before then Inr [LineTrackerReset]
      else
        (case fetchBlameLines g ls (obs_documentIsDirty before) of
           Inl ex \<Rightarrow> Inl ex
         | Inr None \<Rightarrow>
             Inr (LineTrackerReset # clear_editor after (Some (editor, obs_editorDisposed after)) False)
         | Inr (Some blameLines) \<Rightarrow>
             (if obs_includesAll after \<and> obs_isBlameable after \<and> \<not> obs_pending after
                 \<and> \<not> obs_annotationsEnabled after \<and> \<not> obs_statusBarEnabled after
              then Inr (LineTrackerReset # clear_editor after (Some (editor, obs_editorDisposed after)) False)
              else
                (case applyBlame blameLines editor after final of
                   Inl ex \<Rightarrow> Inl ex
                 | Inr effects \<Rightarrow>
                     Inr (LineTrackerReset
                          # (if obs_includesAll after \<and> obs_isBlameable after \<and> \<not> obs_pending after
                                \<and> \<not> obs_annotationsEnabled after
                             then clearAnnotations (Some (editor, obs_editorDisposed after)) else [])
                          @ effects)))))"

text \<open>Whether a list of effects writes to the display or to the line state.\<close>

fun isDisplayWrite :: "Effect \<Rightarrow> bool" where
  "isDisplayWrite (LineTrackerSetState l c) = True"
| "isDisplayWrite (StatusBarShow c) = True"
| "isDisplayWrite (SetDecorations e ds) = (ds \<noteq> [])"
| "isDisplayWrite LineTrackerReset = False"
| "isDisplayWrite UnregisterHoverProviders = False"
| "isDisplayWrite StatusBarHide = False"
| "isDisplayWrite SetForceDirtyStateChange = False"

section \<open>ResultsExplorer\<close>

text \<open>
  An \<open>ExplorerNode\<close> is an object: its identity and what it shows. \<open>_roots\<close> is the
  list of root nodes; \<open>includes\<close>, \<open>findIndex\<close> and \<open>===\<close> compare identities. The
  explorer's dealings with its nodes and with the tree view are kept as lists, oldest
  first: the nodes on which \<open>dispose()\<close> and \<open>refresh()\<close> were called, and the
  arguments with which \<open>_onDidChangeTreeData\<close> fired (\<open>None\<close> for \<open>undefined\<close>).
\<close>

datatype NodeContent =
    ComparisonResults string string string
  | CommitResults string
  | CommitsResults string

record ExplorerNode =
  nodeIdent :: nat
  nodeContent :: NodeContent

record ResultsExplorer =
  priv_roots :: "ExplorerNode list"
  disposedNodes :: "nat list"
  refreshedNodes :: "nat list"
  onDidChangeTreeData :: "nat option list"
  nextNode :: nat

text \<open>
  The saved results of the configuration (\<open>resultsExplorer.savedResults\<close>, possibly
  \<open>undefined\<close>) and the workspace flag behind the getter \<open>keepResults\<close>.
\<close>

record SavedResult =
  saved_type :: string
  saved_repoPath :: string
  saved_ref1 :: string
  saved_ref2 :: string

record Workspace =
  keepResults :: bool
  savedResults :: "SavedResult list option"

definition rootsInclude :: "ResultsExplorer \<Rightarrow> ExplorerNode \<Rightarrow> bool" where
  "rootsInclude x n = (nodeIdent n \<in> set (map nodeIdent (priv_roots x)))"

definition refresh_explorer :: "ResultsExplorer \<Rightarrow> ResultsExplorer" where
  "refresh_explorer x = x\<lparr>onDidChangeTreeData := onDidChangeTreeData x @ [None]\<rparr>"

text \<open>\<open>refreshNode(node)\<close>, called without the optional paging arguments.\<close>

definition refreshNode :: "ExplorerNode \<Rightarrow> ResultsExplorer \<Rightarrow> ResultsExplorer" where
  "refreshNode n x =
     x\<lparr>refreshedNodes := refreshedNodes x @ [nodeIdent n],
       onDidChangeTreeData := onDidChangeTreeData x
                              @ [if rootsInclude x n then None else Some (nodeIdent n)]\<rparr>"

text \<open>\<open>fromSaved\<close> makes a new comparison node for each saved comparison, in order.\<close>

fun savedNodes :: "nat \<Rightarrow> SavedResult list \<Rightarrow> ExplorerNode list" where
  "savedNodes i [] = []"
| "savedNodes i (r # rs) =
     (if saved_type r = ''comparison''
      then \<lparr>nodeIdent = i,
            nodeContent = ComparisonResults (saved_repoPath r) (saved_ref1 r) (saved_ref2 r)\<rparr>
           # savedNodes (Suc i) rs
      else savedNodes i rs)"

definition fromSaved :: "Workspace \<Rightarrow> ResultsExplorer \<Rightarrow> ExplorerNode list \<times> ResultsExplorer" where
  "fromSaved w x =
     (let nodes = (case savedResults w of
                     None \<Rightarrow> []
                   | Some saved \<Rightarrow> savedNodes (nextNode x) saved)
      in (nodes, x\<lparr>nextNode := nextNode x + length nodes\<rparr>))"

definition clearResults :: "Workspace \<Rightarrow> ResultsExplorer \<Rightarrow> ResultsExplorer" where
  "clearResults w x =
     (if priv_roots x = [] then x
      else
        (let x1 = x\<lparr>disposedNodes := disposedNodes x @ map nodeIdent (priv_roots x)\<rparr>;
             (nodes, x2) = fromSaved w x1
         in refresh_explorer (x2\<lparr>priv_roots := nodes\<rparr>)))"

definition addResults :: "Workspace \<Rightarrow> ExplorerNode \<Rightarrow> ResultsExplorer \<Rightarrow> bool \<times> ResultsExplorer" where
  "addResults w results x =
     (if rootsInclude x results then (False, x)
      else
        (let x1 = (if priv_roots x \<noteq> [] \<and> \<not> keepResults w then clearResults w x else x);
             x2 = x1\<lparr>priv_roots := results # priv_roots x1\<rparr>
         in (True, refreshNode results x2)))"

section \<open>Notions used in the proofs\<close>


text \<open>
  The part of the state the idle trigger depends on, and the states in which it is
  quiet: the delay is at most 0, the field \<open>_dirtyIdleTriggeredDebounced\<close> is
  \<open>undefined\<close>, and no debounced function made for the idle trigger has its timer
  running.
\<close>

definition idleView ::
  "DocumentTracker \<Rightarrow> int \<times> nat option \<times> (nat \<rightharpoonup> DocumentDirtyIdleTriggerEvent Debounced)
     \<times> DocumentDirtyIdleTriggerEvent list" where
  "idleView t =
     (dirtyIdleTriggerDelay t, dirtyIdleTriggeredDebounced t, idleDebounced t, onDidTriggerDirtyIdle t)"

definition idleQuiet :: "DocumentTracker \<Rightarrow> bool" where
  "idleQuiet t \<longleftrightarrow>
     dirtyIdleTriggerDelay t \<le> 0 \<and> dirtyIdleTriggeredDebounced t = None
     \<and> (\<forall>r d. idleDebounced t r = Some d \<longrightarrow> timer d = None)"

text \<open>
  What holds of the idle trigger in every state the tracker reaches: the field
  \<open>_dirtyIdleTriggeredDebounced\<close> is set only while the delay is positive, and every
  debounced function made for the idle trigger is numbered below \<open>nextObject\<close>.
\<close>

definition idleWellFormed :: "DocumentTracker \<Rightarrow> bool" where
  "idleWellFormed t \<longleftrightarrow>
     (dirtyIdleTriggeredDebounced t \<noteq> None \<longrightarrow> 0 < dirtyIdleTriggerDelay t)
     \<and> (\<forall>r. idleDebounced t r \<noteq> None \<longrightarrow> r < nextObject t)"

section \<open>Concrete inputs\<close>

text \<open>Small concrete states and events on which the theorems below are evaluated.\<close>

definition example_editor :: TextEditor where
  "example_editor = \<lparr>editorIdent = 1, editorDocument = HostObject 1\<rparr>"

definition example_suspended_controller :: CurrentLineController where
  "example_suspended_controller =
     \<lparr>priv_blameAnnotationState = Some \<lparr>priv_enabled = True, priv_suspendReason = Some Dirty\<rparr>,
      config_currentLine_enabled = True, refreshCalls = []\<rparr>"

definition example_window :: Window where
  "example_window = \<lparr>window_activeTextEditor = Some example_editor, sizeThresholdAfterEdit = 100\<rparr>"

definition example_git :: Git where
  "example_git =
     \<lparr>getBlameForLine = (\<lambda>l. Some \<lparr>blame_line = \<lparr>commitLine_sha = ''abc'', commitLine_line = l\<rparr>,
                                    blame_commit = Some ''abc''\<rparr>),
      getBlameForLineContents = (\<lambda>l. None),
      getBlameForFile = None,
      getBlameForFileContents = None\<rparr>"

definition example_observed :: "bool \<Rightarrow> Observed" where
  "example_observed stillOnLines =
     \<lparr>obs_includesAll = stillOnLines, obs_pending = False, obs_isBlameable = True,
      obs_annotationsEnabled = True, obs_statusBarEnabled = True, obs_statusBarItem = True,
      obs_hoverProviders = False, obs_isTextEditor = True, obs_editorDisposed = False,
      obs_documentDefined = True, obs_documentIsDirty = False, obs_tracked = True,
      obs_thisEditor = Some (example_editor, False)\<rparr>"

definition example_explorer :: ResultsExplorer where
  "example_explorer =
     \<lparr>priv_roots = [\<lparr>nodeIdent = 1, nodeContent = CommitResults ''c1''\<rparr>],
      disposedNodes = [], refreshedNodes = [], onDidChangeTreeData = [], nextNode = 10\<rparr>"

definition example_workspace :: Workspace where
  "example_workspace =
     \<lparr>keepResults = False,
      savedResults = Some [\<lparr>saved_type = ''comparison'', saved_repoPath = ''/r'',
                            saved_ref1 = ''a'', saved_ref2 = ''b''\<rparr>,
                           \<lparr>saved_type = ''search'', saved_repoPath = ''/r'',
                            saved_ref1 = ''a'', saved_ref2 = ''b''\<rparr>]\<rparr>"

definition example_gitUri :: GitUri where
  "example_gitUri = \<lparr>git_uri = \<lparr>scheme = ''git'', fsPath = ''/x''\<rparr>, repoPath = ''/'', sha = Some ''abc''\<rparr>"

definition example_host :: "string \<Rightarrow> Host" where
  "example_host message =
     \<lparr>openTextDocument = (\<lambda>u. Inl (Thrown message)),
      fileUri = (\<lambda>g. git_uri g),
      toKey = (\<lambda>u. fsPath u)\<rparr>"

definition example_document :: "bool \<Rightarrow> TextDocument" where
  "example_document isDirtyNow =
     HostTextDocument 1 \<lparr>scheme = ''file'', fsPath = ''/a.ts''\<rparr> isDirtyNow 10"

definition delayChangedTo :: "int \<Rightarrow> ConfigurationChangeEvent" where
  "delayChangedTo delay =
     \<lparr>initializing = False, changed_ignoreWhitespace = False, changed_cachingEnabled = False,
      changed_delayAfterEdit = True, get_delayAfterEdit = delay\<rparr>"

text \<open>
  A tracker with no idle delay, after the editor of the example became active, its
  document was edited and the dirty-state notification was delivered.
\<close>

definition example_tracker :: DocumentTracker where
  "example_tracker =
     run (example_host ''Error: File not found'')
       [ActiveTextEditor (Some example_editor),
        TextDocumentChanged \<lparr>ev_document = example_document True\<rparr>,
        Elapse 50,
        ChangeTimer,
        Immediate]
       (new_DocumentTracker 0)"

definition example_becameClean :: DocumentDirtyStateChangeEvent where
  "example_becameClean = \<lparr>ds_editor = example_editor, ds_document = 0, ds_dirty = False\<rparr>"

definition example_becameDirty :: DocumentDirtyStateChangeEvent where
  "example_becameDirty = \<lparr>ds_editor = example_editor, ds_document = 0, ds_dirty = True\<rparr>"

text \<open>
  A run in which an idle timer is armed under a delay of 500 ms and the delay is then
  set to 0, and events that follow it in the runs below.
\<close>

definition example_arming :: "HostEvent list" where
  "example_arming =
     [ActiveTextEditor (Some example_editor),
      ConfigurationChanged (delayChangedTo 500),
      TextDocumentChanged \<lparr>ev_document = example_document True\<rparr>,
      Elapse 50,
      ChangeTimer,
      Immediate,
      ConfigurationChanged (delayChangedTo 0)]"

definition example_edits :: "HostEvent list" where
  "example_edits =
     [TextDocumentChanged \<lparr>ev_document = example_document False\<rparr>,
      Elapse 50,
      ChangeTimer,
      ConfigurationChanged (delayChangedTo (- 1)),
      Elapse 100,
      TextDocumentChanged \<lparr>ev_document = example_document True\<rparr>,
      Elapse 50,
      ChangeTimer,
      Immediate,
      Elapse 100000,
      IdleTimer 1,
      IdleTimer 2,
      StateTimer]"

section \<open>Properties of AnnotationState\<close>

lemma call_keeps_flag: "\<not> is_Reset c \<Longrightarrow> priv_enabled (call c s) = priv_enabled s"
  by (cases c) (simp_all add: suspend_def resume_def)

lemma calls_keep_flag:
  "list_all (\<lambda>c. \<not> is_Reset c) cs \<Longrightarrow> priv_enabled (calls cs s) = priv_enabled s"
  by (induction cs arbitrary: s) (simp_all add: call_keeps_flag)

lemma calls_append: "calls (cs @ ds) s = calls ds (calls cs s)"
  by (induction cs arbitrary: s) simp_all

lemma enabled_after_resume: "enabled (snd (resume r s)) = priv_enabled s"
  by (simp add: resume_def enabled_def suspended_def)

lemma reset_sets: "snd (reset e s) = s\<lparr>priv_enabled := e, priv_suspendReason := None\<rparr>"
  by (cases s) (auto simp: reset_def suspended_def)

text \<open>
  C1 (as stated, refuted). The claim says that after \<open>suspend('debugging')\<close>,
  \<open>suspend('dirty')\<close>, a single \<open>resume('debugging')\<close> leaves the state suspended. On a
  state made with \<open>new AnnotationState(true)\<close> the state is not suspended after these
  three calls, and \<open>enabled\<close> is true again.
\<close>

theorem resume_debugging_clears_dirty_suspension:
  "\<not> suspended (calls [Suspend Debugging, Suspend Dirty, Resume Debugging] (new_AnnotationState True))
   \<and> enabled (calls [Suspend Debugging, Suspend Dirty, Resume Debugging] (new_AnnotationState True))"
  by (simp add: new_AnnotationState_def suspend_def resume_def suspended_def enabled_def)

text \<open>
  C1 (amended). For every state, after \<open>suspend('debugging')\<close> then \<open>suspend('dirty')\<close>
  the suspend reason is \<open>'dirty'\<close> (the later call overwrote it) and \<open>enabled\<close> is
  false; \<open>resume\<close> does not look at its reason, so a single \<open>resume('debugging')\<close>
  ends the suspension and \<open>enabled\<close> is the underlying flag again.
\<close>

theorem suspend_last_writer_wins_resume_any_reason:
  "priv_suspendReason (calls [Suspend Debugging, Suspend Dirty] s) = Some Dirty
   \<and> \<not> enabled (calls [Suspend Debugging, Suspend Dirty] s)
   \<and> \<not> suspended (calls [Suspend Debugging, Suspend Dirty, Resume Debugging] s)
   \<and> enabled (calls [Suspend Debugging, Suspend Dirty, Resume Debugging] s) = priv_enabled s"
  by (simp add: suspend_def resume_def suspended_def enabled_def)

text \<open>
  C2. For every state and every sequence of \<open>reset\<close>, \<open>suspend\<close> and \<open>resume\<close> calls:
  whenever a suspend reason is set afterwards, the getter \<open>enabled\<close> returns false, and
  it would whatever the underlying flag \<open>_enabled\<close> were.
\<close>

theorem enabled_false_while_suspended:
  "priv_suspendReason (calls cs s) \<noteq> None \<longrightarrow>
     enabled (calls cs s) = False \<and> enabled ((calls cs s)\<lparr>priv_enabled := b\<rparr>) = False"
  by (simp add: enabled_def suspended_def)

theorem enabled_false_while_suspended_witness:
  "priv_suspendReason (calls [Reset True, Suspend Dirty] (new_AnnotationState True)) \<noteq> None
   \<and> enabled (calls [Reset True, Suspend Dirty] (new_AnnotationState True)) = False"
  using enabled_false_while_suspended [of "[Reset True, Suspend Dirty]" "new_AnnotationState True" True]
  by (simp add: new_AnnotationState_def suspend_def reset_def suspended_def)

text \<open>
  C3. For every state, \<open>reset(true)\<close>, \<open>suspend('dirty')\<close>, \<open>resume('dirty')\<close> leaves
  \<open>enabled\<close> true. More generally, after \<open>suspend(r)\<close>, any calls other than \<open>reset\<close>,
  and \<open>resume(r)\<close>, \<open>enabled\<close> is the underlying flag as it was before the suspension,
  which is the value \<open>enabled\<close> had then if the state was not suspended already.
\<close>

theorem suspend_resume_round_trip:
  "enabled (calls [Reset True, Suspend Dirty, Resume Dirty] s) = True
   \<and> (list_all (\<lambda>c. \<not> is_Reset c) cs \<longrightarrow>
        enabled (calls (Suspend r # cs @ [Resume r]) s) = priv_enabled s
        \<and> (\<not> suspended s \<longrightarrow> enabled (calls (Suspend r # cs @ [Resume r]) s) = enabled s))"
proof -
  have a: "enabled (calls [Reset True, Suspend Dirty, Resume Dirty] s) = True"
    by (simp add: enabled_after_resume suspend_def reset_sets)
  have b: "enabled (calls (Suspend r # cs @ [Resume r]) s) = priv_enabled s"
    if "list_all (\<lambda>c. \<not> is_Reset c) cs"
    using that by (simp add: calls_append enabled_after_resume calls_keep_flag suspend_def)
  have c: "\<not> suspended s \<Longrightarrow> priv_enabled s = enabled s"
    by (simp add: enabled_def)
  from a b c show ?thesis by simp
qed

theorem suspend_resume_round_trip_witness:
  "list_all (\<lambda>c. \<not> is_Reset c) [Suspend Debugging, Resume Debugging, Suspend Dirty]
   \<and> \<not> suspended (new_AnnotationState True)
   \<and> enabled (calls (Suspend Dirty # [Suspend Debugging, Resume Debugging, Suspend Dirty] @ [Resume Dirty])
        (new_AnnotationState True)) = enabled (new_AnnotationState True)"
  using suspend_resume_round_trip
          [of "new_AnnotationState True" "[Suspend Debugging, Resume Debugging, Suspend Dirty]" Dirty]
  by (simp add: new_AnnotationState_def suspended_def enabled_def suspend_def resume_def)

section \<open>Properties of ResultsExplorer\<close>

lemma clearResults_roots:
  "priv_roots x \<noteq> [] \<Longrightarrow> priv_roots (clearResults w x) = fst (fromSaved w x)"
  by (simp add: clearResults_def fromSaved_def refresh_explorer_def Let_def split: option.splits)

lemma clearResults_disposed:
  "priv_roots x \<noteq> [] \<Longrightarrow>
     disposedNodes (clearResults w x) = disposedNodes x @ map nodeIdent (priv_roots x)"
  by (simp add: clearResults_def fromSaved_def refresh_explorer_def Let_def)

text \<open>
  C10. \<open>addResults\<close>: if the node is already a root, the result is \<open>false\<close> and the
  explorer is unchanged. Otherwise the result is \<open>true\<close>; if there are roots and
  \<open>keepResults\<close> is false, every old root is disposed and the roots become the new
  node followed by the nodes made from the saved results; in the remaining case the new
  node is put in front of the old roots and nothing is disposed.
\<close>

theorem addResults_replaces_or_prepends:
  "(rootsInclude x n \<longrightarrow> addResults w n x = (False, x))
   \<and> (\<not> rootsInclude x n \<longrightarrow>
        fst (addResults w n x) = True
        \<and> (priv_roots x \<noteq> [] \<and> \<not> keepResults w \<longrightarrow>
             priv_roots (snd (addResults w n x)) = n # fst (fromSaved w x)
             \<and> disposedNodes (snd (addResults w n x)) = disposedNodes x @ map nodeIdent (priv_roots x))
        \<and> (\<not> (priv_roots x \<noteq> [] \<and> \<not> keepResults w) \<longrightarrow>
             priv_roots (snd (addResults w n x)) = n # priv_roots x
             \<and> disposedNodes (snd (addResults w n x)) = disposedNodes x))"
  by (simp add: addResults_def refreshNode_def clearResults_roots clearResults_disposed Let_def)

theorem addResults_replaces_or_prepends_witness:
  "rootsInclude example_explorer \<lparr>nodeIdent = 1, nodeContent = CommitResults ''c1''\<rparr>
   \<and> addResults example_workspace \<lparr>nodeIdent = 1, nodeContent = CommitResults ''c1''\<rparr> example_explorer
       = (False, example_explorer)
   \<and> \<not> rootsInclude example_explorer \<lparr>nodeIdent = 2, nodeContent = CommitResults ''c2''\<rparr>
   \<and> priv_roots example_explorer \<noteq> [] \<and> \<not> keepResults example_workspace
   \<and> fst (addResults example_workspace \<lparr>nodeIdent = 2, nodeContent = CommitResults ''c2''\<rparr> example_explorer)
       = True
   \<and> priv_roots (snd (addResults example_workspace \<lparr>nodeIdent = 2, nodeContent = CommitResults ''c2''\<rparr>
                        example_explorer))
       = [\<lparr>nodeIdent = 2, nodeContent = CommitResults ''c2''\<rparr>,
          \<lparr>nodeIdent = 10, nodeContent = ComparisonResults ''/r'' ''a'' ''b''\<rparr>]
   \<and> disposedNodes (snd (addResults example_workspace \<lparr>nodeIdent = 2, nodeContent = CommitResults ''c2''\<rparr>
                            example_explorer))
       = [1]
   \<and> \<not> (priv_roots example_explorer \<noteq> [] \<and> \<not> keepResults (example_workspace\<lparr>keepResults := True\<rparr>))
   \<and> priv_roots (snd (addResults (example_workspace\<lparr>keepResults := True\<rparr>)
                        \<lparr>nodeIdent = 2, nodeContent = CommitResults ''c2''\<rparr> example_explorer))
       = [\<lparr>nodeIdent = 2, nodeContent = CommitResults ''c2''\<rparr>,
          \<lparr>nodeIdent = 1, nodeContent = CommitResults ''c1''\<rparr>]"
  using addResults_replaces_or_prepends
          [of example_explorer "\<lparr>nodeIdent = 1, nodeContent = CommitResults ''c1''\<rparr>" example_workspace]
        addResults_replaces_or_prepends
          [of example_explorer "\<lparr>nodeIdent = 2, nodeContent = CommitResults ''c2''\<rparr>" example_workspace]
        addResults_replaces_or_prepends
          [of example_explorer "\<lparr>nodeIdent = 2, nodeContent = CommitResults ''c2''\<rparr>"
              "example_workspace\<lparr>keepResults := True\<rparr>"]
  by (simp add: rootsInclude_def example_explorer_def example_workspace_def fromSaved_def)

section \<open>Properties of CurrentLineController\<close>

text \<open>
  C6 (as stated, refuted). The claim says that resumption is skipped when the document
  becomes clean and its line count exceeds the configured threshold. With the threshold
  at 100 lines and a document of 5000 lines, the dirty-state event for the clean
  document ends the suspension and asks for a refresh of the active editor.
\<close>

theorem clean_resumes_above_threshold:
  "blameSuspended example_suspended_controller
   \<and> \<not> blameSuspended
        (onDirtyStateChanged example_window \<lparr>change_dirty = False, change_lineCount = 5000\<rparr>
           example_suspended_controller)
   \<and> refreshCalls
        (onDirtyStateChanged example_window \<lparr>change_dirty = False, change_lineCount = 5000\<rparr>
           example_suspended_controller)
      = [example_editor]"
  by (simp add: blameSuspended_def onDirtyStateChanged_def resumeBlameAnnotations_def resume_def
        suspended_def refresh_editor_def example_suspended_controller_def example_window_def)

text \<open>
  C6 (amended). While the annotations are suspended with reason \<open>'dirty'\<close>: a
  dirty-state event for a clean document resumes them whatever the line count and the
  threshold (the suspension ends, and the active editor, if any, is refreshed). The
  threshold belongs to the idle trigger: that handler does nothing when the threshold
  is positive and the line count exceeds it, and resumes otherwise.
\<close>

theorem clean_always_resumes_idle_respects_threshold:
  "priv_blameAnnotationState c = Some s \<and> priv_suspendReason s = Some Dirty \<longrightarrow>
     priv_blameAnnotationState (onDirtyStateChanged w \<lparr>change_dirty = False, change_lineCount = n\<rparr> c)
       = Some (s\<lparr>priv_suspendReason := None\<rparr>)
     \<and> refreshCalls (onDirtyStateChanged w \<lparr>change_dirty = False, change_lineCount = n\<rparr> c)
       = refreshCalls c @ (case window_activeTextEditor w of None \<Rightarrow> [] | Some ed \<Rightarrow> [ed])
     \<and> (sizeThresholdAfterEdit w > 0 \<and> int m > sizeThresholdAfterEdit w \<longrightarrow>
          onDirtyIdleTriggered w \<lparr>trigger_lineCount = m\<rparr> c = c)
     \<and> (\<not> (sizeThresholdAfterEdit w > 0 \<and> int m > sizeThresholdAfterEdit w) \<longrightarrow>
          priv_blameAnnotationState (onDirtyIdleTriggered w \<lparr>trigger_lineCount = m\<rparr> c)
            = Some (s\<lparr>priv_suspendReason := None\<rparr>)
          \<and> refreshCalls (onDirtyIdleTriggered w \<lparr>trigger_lineCount = m\<rparr> c)
            = refreshCalls c @ (case window_activeTextEditor w of None \<Rightarrow> [] | Some ed \<Rightarrow> [ed]))"
  by (auto simp: onDirtyStateChanged_def onDirtyIdleTriggered_def resumeBlameAnnotations_def resume_def
        suspended_def refresh_editor_def Let_def split: option.splits)

theorem clean_always_resumes_idle_respects_threshold_witness:
  "priv_blameAnnotationState example_suspended_controller
     = Some \<lparr>priv_enabled = True, priv_suspendReason = Some Dirty\<rparr>
   \<and> priv_blameAnnotationState
        (onDirtyStateChanged example_window \<lparr>change_dirty = False, change_lineCount = 5000\<rparr>
           example_suspended_controller)
      = Some \<lparr>priv_enabled = True, priv_suspendReason = None\<rparr>
   \<and> sizeThresholdAfterEdit example_window > 0 \<and> int 5000 > sizeThresholdAfterEdit example_window
   \<and> onDirtyIdleTriggered example_window \<lparr>trigger_lineCount = 5000\<rparr> example_suspended_controller
      = example_suspended_controller
   \<and> \<not> (sizeThresholdAfterEdit example_window > 0 \<and> int 7 > sizeThresholdAfterEdit example_window)
   \<and> priv_blameAnnotationState
        (onDirtyIdleTriggered example_window \<lparr>trigger_lineCount = 7\<rparr> example_suspended_controller)
      = Some \<lparr>priv_enabled = True, priv_suspendReason = None\<rparr>"
  using clean_always_resumes_idle_respects_threshold
          [of example_suspended_controller "\<lparr>priv_enabled = True, priv_suspendReason = Some Dirty\<rparr>"
              example_window 5000 5000]
        clean_always_resumes_idle_respects_threshold
          [of example_suspended_controller "\<lparr>priv_enabled = True, priv_suspendReason = Some Dirty\<rparr>"
              example_window 5000 7]
  by (simp add: example_suspended_controller_def example_window_def)

text \<open>
  C5 (what the code does). The update started with its lines active and no call pending,
  and the fetch gave blame lines. If at the resumption the line tracker no longer
  includes the lines, or a newer call is pending, the update still goes on: it writes
  the line state of the first blame line and, for a clean document in a text editor,
  shows the commit in the status bar (when the status bar is on) and sets the trailing
  decorations (when the annotations are on). The test after the \<open>await\<close> guards only
  the clearing of annotations; it returns in no case in which it fails.
\<close>

theorem stale_resumption_still_applies_blame:
  "obs_includesAll before \<and> \<not> obs_pending before
   \<and> fetchBlameLines g ls (obs_documentIsDirty before) = Inr (Some (a # as))
   \<and> (\<not> obs_includesAll after \<or> obs_pending after) \<longrightarrow>
     (\<exists>effects. updateBlame ls editor g before after final = Inr effects
        \<and> LineTrackerSetState (commitLine_line (blame_line a)) (blame_commit a) \<in> set effects
        \<and> (obs_documentDefined after \<and> \<not> obs_documentIsDirty after \<and> obs_isTextEditor after
             \<and> obs_statusBarEnabled after \<and> obs_statusBarItem after
            \<longrightarrow> StatusBarShow (blame_commit a) \<in> set effects)
        \<and> (obs_documentDefined after \<and> \<not> obs_documentIsDirty after \<and> obs_isTextEditor after
             \<and> obs_annotationsEnabled after
            \<longrightarrow> SetDecorations (editorIdent editor)
                  (map (\<lambda>l. commitLine_line (blame_line l)) (a # as)) \<in> set effects))"
  by (auto simp: updateBlame_def applyBlame_def updateStatusBar_def updateTrailingAnnotations_def Let_def)

text \<open>
  At the failing input: line 5 is active when the update starts and the provider has a
  blame for it; when the fetch resolves the line tracker no longer includes line 5.
  The update writes the line state for line 5, shows the commit in the status bar and
  sets the trailing decoration on line 5.
\<close>

theorem stale_blame_is_applied:
  "obs_includesAll (example_observed True) \<and> \<not> obs_pending (example_observed True)
   \<and> \<not> obs_includesAll (example_observed False)
   \<and> updateBlame [5] example_editor example_git
       (example_observed True) (example_observed False) (example_observed False)
     = Inr [LineTrackerReset, LineTrackerSetState 5 (Some ''abc''), StatusBarShow (Some ''abc''),
            SetDecorations 1 [5]]"
  using stale_resumption_still_applies_blame
          [of "example_observed True" example_git "[5]"
              "\<lparr>blame_line = \<lparr>commitLine_sha = ''abc'', commitLine_line = 5\<rparr>, blame_commit = Some ''abc''\<rparr>"
              "[]" "example_observed False" example_editor "example_observed False"]
  by (simp add: updateBlame_def fetchBlameLines_def applyBlame_def updateStatusBar_def
        updateTrailingAnnotations_def example_observed_def example_git_def example_editor_def)

section \<open>Properties of DocumentTracker\<close>

subsection \<open>Helper functions as record updates\<close>

lemma updateRecord_eq:
  "updateRecord r f t = t\<lparr>records := (records t)(r := map_option f (records t r))\<rparr>"
  by (cases "records t r") (simp_all add: updateRecord_def fun_upd_idem)

lemma callIdleDebounced_eq:
  "callIdleDebounced r e t =
     t\<lparr>idleDebounced := (idleDebounced t)(r := map_option (schedule (now t) e) (idleDebounced t r))\<rparr>"
  by (cases "idleDebounced t r") (simp_all add: callIdleDebounced_def fun_upd_idem)

lemma cancelIdleDebounced_eq:
  "cancelIdleDebounced r t =
     t\<lparr>idleDebounced := (idleDebounced t)(r := map_option cancel (idleDebounced t r))\<rparr>"
  by (cases "idleDebounced t r") (simp_all add: cancelIdleDebounced_def fun_upd_idem)

lemmas tracker_defs = new_DocumentTracker_def onConfigurationChanged_def initializingChangeEvent_def
  onTextDocumentChanged_def addCore_def mapGet_def mapSet_def updateRecord_def td_reset_def
  fireDocumentDirtyStateChanged_def runImmediate_def dirtyImmediate_def fireDirtyState_def
  sameEditor_def ensureInitialized_def new_TrackedDocument_def DocumentSchemes_File_def
  resetForceDirtyStateChangeOnNextDocumentChange_def callIdleDebounced_def cancelIdleDebounced_def
  idleTimer_def stateTimer_def dirtyIdleTriggered_def dirtyStateChanged_def elapse_def
  debounce_def schedule_def cancel_def pending_def idlePending_def
  textDocumentChanged_def changeTimer_def

lemma example_tracker_eq:
  "example_tracker =
    \<lparr>dirtyIdleTriggerDelay = 0,
     documentMap = [(DocumentKey (HostObject 1), 0), (StringKey ''/a.ts'', 0)],
     dirtyIdleTriggeredDebounced = None, dirtyStateChangedDebounced = None,
     onDidChangeDirtyState = [example_becameDirty],
     onDidTriggerDirtyIdle = [],
     records = [0 \<mapsto> \<lparr>document = example_document True, key = ''/a.ts'', dirty = True,
                        forceDirtyStateChangeOnNextDocumentChange = False, isDirtyIdle = False,
                        hasCachedState = False, initialized = True, disposed = False\<rparr>],
     idleDebounced = Map.empty, immediates = [], now = 50,
     activeTextEditor = Some example_editor, nextObject = 1,
     onTextDocumentChangedDebounced = debounce 50\<rparr>"
  by (simp add: example_tracker_def example_host_def example_editor_def example_document_def
        example_becameDirty_def tracker_defs Let_def)

subsection \<open>Text changes and dirty-state notifications\<close>

text \<open>
  C7. A text change of a tracked document, whose record is \<open>d\<close>, fires nothing by
  itself. Unless the dirty flag flips (or the force flag is set) and the active
  editor shows the edited document, it also leaves the queue of \<open>setImmediate\<close> and
  the clean-side debounced function as they were, so no dirty-state notification
  results from it. When the document is a file, the flag flips (or the force flag is
  set) and the active editor shows the document, the notification is scheduled: on
  \<open>setImmediate\<close> for a dirty document, on the 250 ms debounce for a clean one.
\<close>

theorem text_change_notifies_only_on_flip_of_active_document:
  "mapGet t (DocumentKey (docIdent (ev_document e))) = Some r \<and> records t r = Some d \<longrightarrow>
     onDidChangeDirtyState (onTextDocumentChanged h e t) = onDidChangeDirtyState t
     \<and> (\<not> ((forceDirtyStateChangeOnNextDocumentChange d \<or> dirty d \<noteq> isDirty (ev_document e))
             \<and> map_option editorDocument (activeTextEditor t) = Some (docIdent (ev_document e)))
        \<longrightarrow> immediates (onTextDocumentChanged h e t) = immediates t
            \<and> dirtyStateChangedDebounced (onTextDocumentChanged h e t) = dirtyStateChangedDebounced t)
     \<and> (scheme (uri (ev_document e)) = DocumentSchemes_File
          \<and> (forceDirtyStateChangeOnNextDocumentChange d \<or> dirty d \<noteq> isDirty (ev_document e))
          \<and> activeTextEditor t = Some ed \<and> editorDocument ed = docIdent (ev_document e)
        \<longrightarrow> (if isDirty (ev_document e)
             then immediates (onTextDocumentChanged h e t)
                    = immediates t @ [\<lparr>ds_editor = ed, ds_document = r, ds_dirty = True\<rparr>]
             else dirtyStateChangedDebounced (onTextDocumentChanged h e t)
                    = Some (schedule (now t) \<lparr>ds_editor = ed, ds_document = r, ds_dirty = False\<rparr>
                              (case dirtyStateChangedDebounced t of None \<Rightarrow> debounce 250 | Some x \<Rightarrow> x))))"
  by (auto simp: onTextDocumentChanged_def updateRecord_eq callIdleDebounced_eq cancelIdleDebounced_eq
        fireDocumentDirtyStateChanged_def td_reset_def Let_def
        split: option.splits if_splits)

theorem text_change_notifies_only_on_flip_of_active_document_witness:
  "mapGet example_tracker (DocumentKey (docIdent (example_document False))) = Some 0
   \<and> map_option dirty (records example_tracker 0) = Some True
   \<and> scheme (uri (example_document False)) = DocumentSchemes_File
   \<and> True \<noteq> isDirty (example_document False)
   \<and> activeTextEditor example_tracker = Some example_editor
   \<and> editorDocument example_editor = docIdent (example_document False)
   \<and> dirtyStateChangedDebounced
        (onTextDocumentChanged (example_host ''Error: File not found'')
           \<lparr>ev_document = example_document False\<rparr> example_tracker)
      = Some \<lparr>wait = 250, timer = Some (300, example_becameClean)\<rparr>
   \<and> \<not> (True \<noteq> isDirty (example_document True))
   \<and> immediates
        (onTextDocumentChanged (example_host ''Error: File not found'')
           \<lparr>ev_document = example_document True\<rparr> example_tracker)
      = immediates example_tracker"
  using text_change_notifies_only_on_flip_of_active_document
          [of example_tracker "\<lparr>ev_document = example_document False\<rparr>" 0
              "\<lparr>document = example_document True, key = ''/a.ts'', dirty = True,
                forceDirtyStateChangeOnNextDocumentChange = False, isDirtyIdle = False,
                hasCachedState = False, initialized = True, disposed = False\<rparr>"
              "example_host ''Error: File not found''" example_editor]
        text_change_notifies_only_on_flip_of_active_document
          [of example_tracker "\<lparr>ev_document = example_document True\<rparr>" 0
              "\<lparr>document = example_document True, key = ''/a.ts'', dirty = True,
                forceDirtyStateChangeOnNextDocumentChange = False, isDirtyIdle = False,
                hasCachedState = False, initialized = True, disposed = False\<rparr>"
              "example_host ''Error: File not found''" example_editor]
  by (simp add: example_tracker_eq mapGet_def example_document_def example_editor_def
        DocumentSchemes_File_def schedule_def debounce_def example_becameClean_def)

subsection \<open>The idle trigger\<close>

lemma idleView_updateRecord [simp]: "idleView (updateRecord r f t) = idleView t"
  by (simp add: idleView_def updateRecord_eq)

lemma idleView_fold_updateRecord [simp]:
  "idleView (fold (\<lambda>r. updateRecord r f) rs t) = idleView t"
  by (induction rs arbitrary: t) simp_all

lemma idleView_addCore [simp]: "idleView (snd (addCore h d t)) = idleView t"
  by (simp add: idleView_def addCore_def Let_def mapSet_def)

lemma idleView_mapDelete [simp]: "idleView (mapDelete k t) = idleView t"
  by (simp add: idleView_def mapDelete_def)

lemma idleView_fireDirtyState [simp]: "idleView (fireDirtyState e t) = idleView t"
  by (simp add: idleView_def fireDirtyState_def updateRecord_eq Let_def)

lemma idleQuiet_view:
  "idleView t' = idleView t \<Longrightarrow> idleQuiet t \<Longrightarrow> idleQuiet t'"
  by (simp add: idleView_def idleQuiet_def)

lemma fire_quiet:
  "dirtyIdleTriggerDelay t \<le> 0 \<Longrightarrow> idleView (fireDocumentDirtyStateChanged e t) = idleView t"
  by (simp add: fireDocumentDirtyStateChanged_def idleView_def Let_def)

lemma onTextDocumentChanged_quiet:
  assumes "idleQuiet t"
  shows "idleView (onTextDocumentChanged h e t) = idleView t"
proof -
  obtain doc t1 where a: "(case mapGet t (DocumentKey (docIdent (ev_document e))) of
                            None \<Rightarrow> addCore h (ev_document e) t
                          | Some r \<Rightarrow> (r, t)) = (doc, t1)"
    by (cases "case mapGet t (DocumentKey (docIdent (ev_document e))) of
                            None \<Rightarrow> addCore h (ev_document e) t
                          | Some r \<Rightarrow> (r, t)") simp
  have v1: "idleView t1 = idleView t"
  proof (cases "mapGet t (DocumentKey (docIdent (ev_document e)))")
    case None
    with a have "t1 = snd (addCore h (ev_document e) t)" by simp
    then show ?thesis by simp
  next
    case (Some r)
    with a show ?thesis by simp
  qed
  let ?t2 = "updateRecord doc td_reset t1"
  have v2: "idleView ?t2 = idleView t" using v1 by simp
  from assms v2 have q2: "dirtyIdleTriggeredDebounced ?t2 = None" "dirtyIdleTriggerDelay ?t2 \<le> 0"
    by (simp_all add: idleView_def idleQuiet_def)
  let ?t4 = "updateRecord doc
                (\<lambda>d. (resetForceDirtyStateChangeOnNextDocumentChange d)\<lparr>dirty := isDirty (ev_document e)\<rparr>) ?t2"
  have v4: "idleView ?t4 = idleView t" using v2 by simp
  have q4: "dirtyIdleTriggerDelay ?t4 \<le> 0" using q2 by (simp add: updateRecord_eq)
  have v5: "idleView (fireDocumentDirtyStateChanged ev ?t4) = idleView t" for ev
    using fire_quiet [OF q4] v4 by simp
  show ?thesis
    unfolding onTextDocumentChanged_def
    using a q2 v2 v4 v5
    by (simp add: Let_def split: option.splits)
qed

lemma onConfigurationChanged_quiet:
  assumes "idleQuiet t" "readsNoPositiveDelay (ConfigurationChanged e)"
  shows "idleQuiet (onConfigurationChanged e t)"
    and "onDidTriggerDirtyIdle (onConfigurationChanged e t) = onDidTriggerDirtyIdle t"
proof -
  define t1 where "t1 = (if \<not> initializing e \<and> (changed_ignoreWhitespace e \<or> changed_cachingEnabled e)
             then fold (\<lambda>r. updateRecord r td_reset) (map snd (documentMap t)) t else t)"
  have eq: "onConfigurationChanged e t =
              (if initializing e \<or> changed_delayAfterEdit e
               then t1\<lparr>dirtyIdleTriggerDelay := get_delayAfterEdit e, dirtyIdleTriggeredDebounced := None\<rparr>
               else t1)"
    by (simp only: onConfigurationChanged_def Let_def t1_def)
  have v: "idleView t1 = idleView t" by (simp add: t1_def)
  from v assms(1) have q: "idleQuiet t1" by (rule idleQuiet_view)
  from q assms(2) show "idleQuiet (onConfigurationChanged e t)"
    unfolding eq by (simp add: idleQuiet_def)
  from v show "onDidTriggerDirtyIdle (onConfigurationChanged e t) = onDidTriggerDirtyIdle t"
    unfolding eq by (simp add: idleView_def)
qed

lemma changeTimer_quiet:
  assumes "idleQuiet t"
  shows "idleView (changeTimer h t) = idleView t"
proof -
  have q: "idleQuiet (t\<lparr>onTextDocumentChangedDebounced := x\<rparr>)" for x
    using assms by (simp add: idleQuiet_def)
  have v: "idleView (t\<lparr>onTextDocumentChangedDebounced := x\<rparr>) = idleView t" for x
    by (simp add: idleView_def)
  show ?thesis
    using onTextDocumentChanged_quiet [OF q, of h] v
    by (simp add: changeTimer_def split: option.splits)
qed

lemma onTextDocumentClosed_view: "idleView (onTextDocumentClosed d t) = idleView t"
  by (simp add: onTextDocumentClosed_def Let_def split: option.splits)

lemma idleTimer_quiet: "idleQuiet t \<Longrightarrow> idleTimer r t = t"
  by (auto simp: idleTimer_def idleQuiet_def split: option.splits)

lemma stateTimer_view: "idleView (stateTimer t) = idleView t"
  by (simp add: stateTimer_def dirtyStateChanged_def idleView_def fireDirtyState_def updateRecord_eq Let_def
        split: option.splits prod.splits)

lemma runImmediate_view: "idleView (runImmediate t) = idleView t"
  by (simp add: runImmediate_def dirtyImmediate_def idleView_def fireDirtyState_def updateRecord_eq Let_def
        split: option.splits list.splits)

lemma step_quiet:
  assumes "idleQuiet t" "readsNoPositiveDelay ev"
  shows "idleQuiet (step h ev t) \<and> onDidTriggerDirtyIdle (step h ev t) = onDidTriggerDirtyIdle t"
proof (cases ev)
  case (ConfigurationChanged e)
  with assms onConfigurationChanged_quiet [of t e] show ?thesis by simp
next
  case (TextDocumentChanged e)
  with assms show ?thesis
    by (simp add: textDocumentChanged_def idleQuiet_def)
next
  case ChangeTimer
  with assms changeTimer_quiet [of t h] show ?thesis
    by (simp add: idleView_def idleQuiet_def)
next
  case (TextDocumentClosed d)
  with assms onTextDocumentClosed_view [of d t] show ?thesis
    by (simp add: idleView_def idleQuiet_def)
next
  case (ActiveTextEditor a)
  with assms show ?thesis by (simp add: idleQuiet_def)
next
  case (Elapse n)
  with assms show ?thesis by (simp add: idleQuiet_def elapse_def)
next
  case (IdleTimer r)
  with assms show ?thesis by (simp add: idleTimer_quiet)
next
  case StateTimer
  with assms stateTimer_view [of t] show ?thesis
    by (simp add: idleView_def idleQuiet_def)
next
  case Immediate
  with assms runImmediate_view [of t] show ?thesis
    by (simp add: idleView_def idleQuiet_def)
qed

lemma run_quiet:
  "idleQuiet t \<Longrightarrow> delayNeverPositive es \<Longrightarrow>
     idleQuiet (run h es t) \<and> onDidTriggerDirtyIdle (run h es t) = onDidTriggerDirtyIdle t"
proof (induction es arbitrary: t)
  case Nil
  then show ?case by simp
next
  case (Cons ev es)
  from Cons.prems have a: "readsNoPositiveDelay ev" and b: "delayNeverPositive es"
    by (simp_all add: delayNeverPositive_def)
  from step_quiet [OF Cons.prems(1) a, of h] Cons.IH [OF _ b, of "step h ev t"]
  show ?case by simp
qed

lemma new_DocumentTracker_quiet: "delay \<le> 0 \<Longrightarrow> idleQuiet (new_DocumentTracker delay)"
  by (simp add: new_DocumentTracker_def onConfigurationChanged_def initializingChangeEvent_def idleQuiet_def)

subsection \<open>The idle trigger in the states the tracker reaches\<close>

lemma wf_updateRecord [simp]: "idleWellFormed (updateRecord r f t) = idleWellFormed t"
  by (simp add: idleWellFormed_def updateRecord_eq)

lemma wf_fold_updateRecord [simp]:
  "idleWellFormed (fold (\<lambda>r. updateRecord r f) rs t) = idleWellFormed t"
  by (induction rs arbitrary: t) simp_all

lemma wf_callIdleDebounced [simp]: "idleWellFormed (callIdleDebounced r e t) = idleWellFormed t"
  by (auto simp: idleWellFormed_def callIdleDebounced_eq)

lemma wf_cancelIdleDebounced [simp]: "idleWellFormed (cancelIdleDebounced r t) = idleWellFormed t"
  by (auto simp: idleWellFormed_def cancelIdleDebounced_eq)

lemma wf_mapDelete [simp]: "idleWellFormed (mapDelete k t) = idleWellFormed t"
  by (simp add: idleWellFormed_def mapDelete_def)

lemma wf_fireDirtyState [simp]: "idleWellFormed (fireDirtyState e t) = idleWellFormed t"
  by (simp add: idleWellFormed_def fireDirtyState_def updateRecord_eq Let_def)

lemma wf_front [simp]:
  "idleWellFormed (t\<lparr>onTextDocumentChangedDebounced := x\<rparr>) = idleWellFormed t"
  by (simp add: idleWellFormed_def)

lemma wf_addCore: "idleWellFormed t \<Longrightarrow> idleWellFormed (snd (addCore h d t))"
  by (auto simp: idleWellFormed_def addCore_def Let_def mapSet_def less_Suc_eq)

lemma wf_fire: "idleWellFormed t \<Longrightarrow> idleWellFormed (fireDocumentDirtyStateChanged e t)"
  by (auto simp: idleWellFormed_def fireDocumentDirtyStateChanged_def callIdleDebounced_eq Let_def
        less_Suc_eq split: option.splits if_splits)

lemma wf_onTextDocumentChanged:
  assumes "idleWellFormed t"
  shows "idleWellFormed (onTextDocumentChanged h e t)"
proof -
  obtain doc t1 where a: "(case mapGet t (DocumentKey (docIdent (ev_document e))) of
                            None \<Rightarrow> addCore h (ev_document e) t
                          | Some r \<Rightarrow> (r, t)) = (doc, t1)"
    by (cases "case mapGet t (DocumentKey (docIdent (ev_document e))) of
                            None \<Rightarrow> addCore h (ev_document e) t
                          | Some r \<Rightarrow> (r, t)") simp
  have w1: "idleWellFormed t1"
  proof (cases "mapGet t (DocumentKey (docIdent (ev_document e)))")
    case None
    with a have "t1 = snd (addCore h (ev_document e) t)" by simp
    with assms show ?thesis by (simp add: wf_addCore)
  next
    case (Some r)
    with a assms show ?thesis by simp
  qed
  show ?thesis
    unfolding onTextDocumentChanged_def
    using a w1 assms
    by (simp add: Let_def wf_fire split: option.splits)
qed

lemma wf_onConfigurationChanged:
  assumes "idleWellFormed t"
  shows "idleWellFormed (onConfigurationChanged e t)"
proof -
  define t1 where "t1 = (if \<not> initializing e \<and> (changed_ignoreWhitespace e \<or> changed_cachingEnabled e)
             then fold (\<lambda>r. updateRecord r td_reset) (map snd (documentMap t)) t else t)"
  have eq: "onConfigurationChanged e t =
              (if initializing e \<or> changed_delayAfterEdit e
               then t1\<lparr>dirtyIdleTriggerDelay := get_delayAfterEdit e, dirtyIdleTriggeredDebounced := None\<rparr>
               else t1)"
    by (simp only: onConfigurationChanged_def Let_def t1_def)
  have w: "idleWellFormed t1" using assms by (simp add: t1_def)
  then show ?thesis unfolding eq by (simp add: idleWellFormed_def)
qed

lemma wf_onTextDocumentClosed: "idleWellFormed (onTextDocumentClosed d t) = idleWellFormed t"
  by (simp add: onTextDocumentClosed_def Let_def split: option.splits)

lemma wf_idleTimer: "idleWellFormed t \<Longrightarrow> idleWellFormed (idleTimer r t)"
  by (auto simp: idleTimer_def dirtyIdleTriggered_def idleWellFormed_def updateRecord_eq Let_def
        split: option.splits)

lemma wf_stateTimer: "idleWellFormed (stateTimer t) = idleWellFormed t"
  by (simp add: stateTimer_def dirtyStateChanged_def idleWellFormed_def fireDirtyState_def
        updateRecord_eq Let_def split: option.splits prod.splits)

lemma wf_runImmediate: "idleWellFormed (runImmediate t) = idleWellFormed t"
  by (simp add: runImmediate_def dirtyImmediate_def idleWellFormed_def fireDirtyState_def
        updateRecord_eq Let_def split: option.splits list.splits)

lemma wf_changeTimer: "idleWellFormed t \<Longrightarrow> idleWellFormed (changeTimer h t)"
  by (simp add: changeTimer_def wf_onTextDocumentChanged split: option.splits)

lemma wf_step: "idleWellFormed t \<Longrightarrow> idleWellFormed (step h ev t)"
  by (cases ev)
     (simp_all add: wf_onConfigurationChanged textDocumentChanged_def wf_onTextDocumentClosed
        wf_idleTimer wf_stateTimer wf_runImmediate wf_changeTimer,
      simp_all add: idleWellFormed_def elapse_def)

lemma wf_run: "idleWellFormed t \<Longrightarrow> idleWellFormed (run h es t)"
  by (induction es arbitrary: t) (simp_all add: wf_step)

lemma wf_new_DocumentTracker: "idleWellFormed (new_DocumentTracker delay)"
  by (simp add: new_DocumentTracker_def onConfigurationChanged_def initializingChangeEvent_def
        idleWellFormed_def)

lemma idleQuiet_reached:
  assumes "idleWellFormed t" "dirtyIdleTriggerDelay t \<le> 0" "idleTimersIdle t"
  shows "idleQuiet t"
proof -
  have "timer d = None" if "idleDebounced t r = Some d" for r d
  proof -
    from assms(1) that have "r < nextObject t" by (simp add: idleWellFormed_def)
    with assms(3) have "\<not> idlePending t r" by (simp add: idleTimersIdle_def list_all_iff)
    with that show ?thesis by (cases "timer d") (simp_all add: idlePending_def pending_def)
  qed
  moreover from assms(1,2) have "dirtyIdleTriggeredDebounced t = None"
    by (auto simp: idleWellFormed_def)
  ultimately show ?thesis using assms(2) by (simp add: idleQuiet_def)
qed

lemma new_DocumentTracker_idle_log: "onDidTriggerDirtyIdle (new_DocumentTracker delay) = []"
  by (simp add: new_DocumentTracker_def onConfigurationChanged_def initializingChangeEvent_def)

lemma example_armed_eq:
  "run (example_host ''Error: File not found'') example_arming (new_DocumentTracker 0) =
    \<lparr>dirtyIdleTriggerDelay = 0,
     documentMap = [(DocumentKey (HostObject 1), 0), (StringKey ''/a.ts'', 0)],
     dirtyIdleTriggeredDebounced = None, dirtyStateChangedDebounced = None,
     onDidChangeDirtyState = [example_becameDirty],
     onDidTriggerDirtyIdle = [],
     records = [0 \<mapsto> \<lparr>document = example_document True, key = ''/a.ts'', dirty = True,
                        forceDirtyStateChangeOnNextDocumentChange = False, isDirtyIdle = False,
                        hasCachedState = False, initialized = True, disposed = False\<rparr>],
     idleDebounced = [1 \<mapsto> \<lparr>wait = 500,
                              timer = Some (550, \<lparr>di_editor = Some example_editor, di_document = 0\<rparr>)\<rparr>],
     immediates = [], now = 50,
     activeTextEditor = Some example_editor, nextObject = 2,
     onTextDocumentChangedDebounced = debounce 50\<rparr>"
  by (simp add: example_arming_def example_host_def example_editor_def example_document_def
        example_becameDirty_def delayChangedTo_def tracker_defs Let_def)

lemma run_append: "run h (es @ fs) t = run h fs (run h es t)"
  by (induction es arbitrary: t) simp_all

lemma example_fired_eq:
  "run (example_host ''Error: File not found'') (example_arming @ [Elapse 500, IdleTimer 1])
     (new_DocumentTracker 0) =
    \<lparr>dirtyIdleTriggerDelay = 0,
     documentMap = [(DocumentKey (HostObject 1), 0), (StringKey ''/a.ts'', 0)],
     dirtyIdleTriggeredDebounced = None, dirtyStateChangedDebounced = None,
     onDidChangeDirtyState = [example_becameDirty],
     onDidTriggerDirtyIdle = [\<lparr>di_editor = Some example_editor, di_document = 0\<rparr>],
     records = [0 \<mapsto> \<lparr>document = example_document True, key = ''/a.ts'', dirty = True,
                        forceDirtyStateChangeOnNextDocumentChange = False, isDirtyIdle = True,
                        hasCachedState = False, initialized = True, disposed = False\<rparr>],
     idleDebounced = [1 \<mapsto> \<lparr>wait = 500, timer = None\<rparr>],
     immediates = [], now = 550,
     activeTextEditor = Some example_editor, nextObject = 2,
     onTextDocumentChangedDebounced = debounce 50\<rparr>"
  unfolding run_append example_armed_eq
  by (simp add: example_becameDirty_def example_editor_def example_document_def tracker_defs Let_def)

text \<open>
  C4 (as stated, refuted). The claim says that no idle-trigger notification is fired
  while the configured delay is at most 0, configuration changes in mid-sequence
  included. In the run \<open>example_arming\<close> the active document is edited under a delay of
  500 ms and the delay is then set to 0: the delay is 0 and nothing has been fired. The
  debounced function that \<open>onConfigurationChanged\<close> dropped still has its timer
  running, and 500 ms later the notification is fired.
\<close>

theorem idle_timer_armed_before_reconfiguration_fires:
  "dirtyIdleTriggerDelay
     (run (example_host ''Error: File not found'') example_arming (new_DocumentTracker 0)) = 0
   \<and> onDidTriggerDirtyIdle
       (run (example_host ''Error: File not found'') example_arming (new_DocumentTracker 0)) = []
   \<and> dirtyIdleTriggerDelay
       (run (example_host ''Error: File not found'') (example_arming @ [Elapse 500, IdleTimer 1])
          (new_DocumentTracker 0)) = 0
   \<and> onDidTriggerDirtyIdle
       (run (example_host ''Error: File not found'') (example_arming @ [Elapse 500, IdleTimer 1])
          (new_DocumentTracker 0))
     = [\<lparr>di_editor = Some example_editor, di_document = 0\<rparr>]"
  unfolding example_armed_eq example_fired_eq by simp

text \<open>
  C4 (amended). The tracker has been constructed and has handled any events
  \<open>es0\<close>. If the configured delay is now at most 0 and no idle timer is running (as
  is the case right after a construction with a delay of at most 0), then whatever
  events \<open>es\<close> follow (text changes, closes, changes of the active editor,
  configuration changes, passing time, timers and \<open>setImmediate\<close> turns), as long as
  every configuration change that reads the delay finds it at most 0, no
  idle-trigger notification is fired.
\<close>

theorem no_idle_trigger_without_positive_delay:
  "dirtyIdleTriggerDelay (run h es0 (new_DocumentTracker delay)) \<le> 0
   \<and> idleTimersIdle (run h es0 (new_DocumentTracker delay))
   \<and> delayNeverPositive es \<longrightarrow>
     onDidTriggerDirtyIdle (run h es (run h es0 (new_DocumentTracker delay)))
       = onDidTriggerDirtyIdle (run h es0 (new_DocumentTracker delay))"
proof (intro impI, elim conjE)
  let ?t = "run h es0 (new_DocumentTracker delay)"
  assume d: "dirtyIdleTriggerDelay ?t \<le> 0" and i: "idleTimersIdle ?t" and n: "delayNeverPositive es"
  have "idleWellFormed ?t" by (simp add: wf_run wf_new_DocumentTracker)
  then have "idleQuiet ?t" using d i by (rule idleQuiet_reached)
  then show "onDidTriggerDirtyIdle (run h es ?t) = onDidTriggerDirtyIdle ?t"
    using n run_quiet by blast
qed

theorem no_idle_trigger_without_positive_delay_witness:
  "dirtyIdleTriggerDelay (run (example_host ''Error: File not found'') [] (new_DocumentTracker 0)) \<le> 0
   \<and> idleTimersIdle (run (example_host ''Error: File not found'') [] (new_DocumentTracker 0))
   \<and> delayNeverPositive (ActiveTextEditor (Some example_editor) # example_edits)
   \<and> onDidTriggerDirtyIdle
        (run (example_host ''Error: File not found'') (ActiveTextEditor (Some example_editor) # example_edits)
           (run (example_host ''Error: File not found'') [] (new_DocumentTracker 0))) = []
   \<and> dirtyIdleTriggerDelay
        (run (example_host ''Error: File not found'') (example_arming @ [Elapse 500, IdleTimer 1])
           (new_DocumentTracker 0)) \<le> 0
   \<and> idleTimersIdle
        (run (example_host ''Error: File not found'') (example_arming @ [Elapse 500, IdleTimer 1])
           (new_DocumentTracker 0))
   \<and> delayNeverPositive example_edits
   \<and> onDidTriggerDirtyIdle
        (run (example_host ''Error: File not found'') example_edits
           (run (example_host ''Error: File not found'') (example_arming @ [Elapse 500, IdleTimer 1])
              (new_DocumentTracker 0)))
      = [\<lparr>di_editor = Some example_editor, di_document = 0\<rparr>]"
proof -
  let ?h = "example_host ''Error: File not found''"
  let ?t = "run ?h (example_arming @ [Elapse 500, IdleTimer 1]) (new_DocumentTracker 0)"
  have a: "idleTimersIdle (run ?h [] (new_DocumentTracker 0))"
    "dirtyIdleTriggerDelay (run ?h [] (new_DocumentTracker 0)) \<le> 0"
    by (simp_all add: idleTimersIdle_def new_DocumentTracker_def onConfigurationChanged_def
          initializingChangeEvent_def)
  have b: "idleTimersIdle ?t" "dirtyIdleTriggerDelay ?t \<le> 0"
    "onDidTriggerDirtyIdle ?t = [\<lparr>di_editor = Some example_editor, di_document = 0\<rparr>]"
    unfolding example_fired_eq
    by (simp_all add: idleTimersIdle_def idlePending_def pending_def list_all_iff)
  have c: "delayNeverPositive example_edits"
    "delayNeverPositive (ActiveTextEditor (Some example_editor) # example_edits)"
    by (simp_all add: delayNeverPositive_def example_edits_def delayChangedTo_def)
  have l: "onDidTriggerDirtyIdle (run ?h [] (new_DocumentTracker 0)) = []"
    by (simp add: new_DocumentTracker_idle_log)
  from a c(2) l
    no_idle_trigger_without_positive_delay
      [of ?h "[]" 0 "ActiveTextEditor (Some example_editor) # example_edits"]
  have 1: "onDidTriggerDirtyIdle
        (run ?h (ActiveTextEditor (Some example_editor) # example_edits)
           (run ?h [] (new_DocumentTracker 0))) = []"
    by metis
  from b c(1)
    no_idle_trigger_without_positive_delay
      [of ?h "example_arming @ [Elapse 500, IdleTimer 1]" 0 example_edits]
  have 2: "onDidTriggerDirtyIdle (run ?h example_edits ?t)
             = [\<lparr>di_editor = Some example_editor, di_document = 0\<rparr>]"
    by metis
  from a b(1,2) c 1 2 show ?thesis by (intro conjI)
qed

subsection \<open>The asymmetric debounce of dirty-state notifications\<close>


lemma fire_clean_eq:
  "\<not> ds_dirty e \<Longrightarrow>
     fireDocumentDirtyStateChanged e t =
       t\<lparr>dirtyStateChangedDebounced :=
            Some (schedule (now t) e (case dirtyStateChangedDebounced t of None \<Rightarrow> debounce 250 | Some d \<Rightarrow> d))\<rparr>"
  by (simp add: fireDocumentDirtyStateChanged_def Let_def)

lemma settled_wait:
  "settled t \<Longrightarrow> wait (case dirtyStateChangedDebounced t of None \<Rightarrow> debounce 250 | Some d \<Rightarrow> d) = 250"
  by (simp add: settled_def debounce_def split: option.splits)



lemma clean_again_restarts_quiet_period:
  assumes "settled t" "\<not> ds_dirty e" "\<not> ds_dirty e'" "m < 250"
  shows "stateTimer (elapse m (fireDocumentDirtyStateChanged e'
                                 (elapse n (fireDocumentDirtyStateChanged e t))))
         = elapse m (fireDocumentDirtyStateChanged e' (elapse n (fireDocumentDirtyStateChanged e t)))"
  using assms settled_wait [OF assms(1)]
  by (simp add: fire_clean_eq stateTimer_def elapse_def schedule_def)



subsection \<open>Text changes in front of the handler\<close>






subsection \<open>Excursions of the active document\<close>












subsection \<open>Adding a document whose revision is missing\<close>

lemma includes_str_sublist: "includes_str s sub \<longleftrightarrow> sublist sub s"
  by (induction s) (simp_all add: sublist_Cons_right)

lemma addAndInitialize_result:
  "\<exists>t'. addAndInitialize h d t = Inr (nextObject t, t')
     \<and> mapGet t' (DocumentKey (docIdent d)) = Some (nextObject t)
     \<and> mapGet t' (StringKey (toKey h (uri d))) = Some (nextObject t)
     \<and> records t' (nextObject t) =
         Some ((new_TrackedDocument d (toKey h (uri d)) False)\<lparr>initialized := True\<rparr>)"
  by (simp add: addAndInitialize_def addCore_def Let_def mapGet_def mapSet_def update_conv'
        updateRecord_def ensureInitialized_def)

lemma missing_revision_document_is_read_only:
  "isDirty (MissingRevisionTextDocument i g u) = False
   \<and> lineCount (MissingRevisionTextDocument i g u) = 0
   \<and> getText (MissingRevisionTextDocument i g u) = Some (Inl (Thrown ''Error: Method not supported.''))
   \<and> save (MissingRevisionTextDocument i g u) = Some (Inl (Thrown ''Error: Method not supported.''))"
  by simp

text \<open>
  C8. \<open>add\<close> is called with a \<open>GitUri\<close> and opening its versioned file URI throws. If
  the thrown value's string includes \<open>File not found\<close>, \<open>add\<close> returns a record: it is
  registered under the new \<open>MissingRevisionTextDocument\<close> and under the key of its
  URI, it holds that placeholder document, and it is initialized. If the string does
  not include \<open>File not found\<close>, \<open>add\<close> throws the same value.
\<close>

theorem add_substitutes_missing_revision_or_rethrows:
  "openTextDocument h (fileUri h g) = Inl (Thrown ex) \<longrightarrow>
     (includes_str ex ''File not found'' \<longrightarrow>
        (\<exists>r t'. add h (AGitUri g) t = Inr (r, t')
           \<and> mapGet t' (DocumentKey (MissingRevisionObject (nextObject t))) = Some r
           \<and> mapGet t' (StringKey (toKey h (fileUri h g))) = Some r
           \<and> records t' r =
               Some ((new_TrackedDocument (MissingRevisionTextDocument (nextObject t) g (fileUri h g))
                        (toKey h (fileUri h g)) False)\<lparr>initialized := True\<rparr>)))
     \<and> (\<not> includes_str ex ''File not found'' \<longrightarrow> add h (AGitUri g) t = Inl (Thrown ex))"
proof (intro impI conjI)
  assume o: "openTextDocument h (fileUri h g) = Inl (Thrown ex)"
    and i: "includes_str ex ''File not found''"
  let ?d = "MissingRevisionTextDocument (nextObject t) g (fileUri h g)"
  let ?t1 = "t\<lparr>nextObject := Suc (nextObject t)\<rparr>"
  from o i have a: "add h (AGitUri g) t = addAndInitialize h ?d ?t1"
    by (simp add: add_def new_MissingRevisionTextDocument_def)
  from addAndInitialize_result [of h ?d ?t1] a
  show "\<exists>r t'. add h (AGitUri g) t = Inr (r, t')
           \<and> mapGet t' (DocumentKey (MissingRevisionObject (nextObject t))) = Some r
           \<and> mapGet t' (StringKey (toKey h (fileUri h g))) = Some r
           \<and> records t' r =
               Some ((new_TrackedDocument ?d (toKey h (fileUri h g)) False)\<lparr>initialized := True\<rparr>)"
    by auto
next
  assume "openTextDocument h (fileUri h g) = Inl (Thrown ex)"
    and "\<not> includes_str ex ''File not found''"
  then show "add h (AGitUri g) t = Inl (Thrown ex)"
    by (simp add: add_def)
qed

lemma new_DocumentTracker_nextObject: "nextObject (new_DocumentTracker delay) = 0"
  by (simp add: new_DocumentTracker_def onConfigurationChanged_def initializingChangeEvent_def)

theorem add_substitutes_missing_revision_or_rethrows_witness:
  "openTextDocument (example_host ''Error: File not found (git:/x)'')
       (fileUri (example_host ''Error: File not found (git:/x)'') example_gitUri)
     = Inl (Thrown ''Error: File not found (git:/x)'')
   \<and> includes_str ''Error: File not found (git:/x)'' ''File not found''
   \<and> (\<exists>r t'. add (example_host ''Error: File not found (git:/x)'') (AGitUri example_gitUri)
                  (new_DocumentTracker 0) = Inr (r, t')
         \<and> mapGet t' (DocumentKey (MissingRevisionObject 0)) = Some r
         \<and> mapGet t' (StringKey ''/x'') = Some r
         \<and> map_option document (records t' r)
             = Some (MissingRevisionTextDocument 0 example_gitUri \<lparr>scheme = ''git'', fsPath = ''/x''\<rparr>)
         \<and> map_option initialized (records t' r) = Some True)
   \<and> openTextDocument (example_host ''Error: EACCES'') (fileUri (example_host ''Error: EACCES'') example_gitUri)
     = Inl (Thrown ''Error: EACCES'')
   \<and> \<not> includes_str ''Error: EACCES'' ''File not found''
   \<and> add (example_host ''Error: EACCES'') (AGitUri example_gitUri) (new_DocumentTracker 0)
     = Inl (Thrown ''Error: EACCES'')"
  using add_substitutes_missing_revision_or_rethrows
          [of "example_host ''Error: File not found (git:/x)''" example_gitUri
              "''Error: File not found (git:/x)''" "new_DocumentTracker 0"]
        add_substitutes_missing_revision_or_rethrows
          [of "example_host ''Error: EACCES''" example_gitUri "''Error: EACCES''" "new_DocumentTracker 0"]
  by (auto simp: new_DocumentTracker_nextObject example_host_def example_gitUri_def new_TrackedDocument_def)

end
